theory Spec2Isabelle
  imports Complex_Main "HOL-Library.Sublist" "HOL-Library.Char_ord" "HOL-Library.List_Lexorder"
begin

section \<open>The system catalog table of the master (kudu/master/sys\_catalog.cc)\<close>

text \<open>
  A shallow embedding of \<^verbatim>\<open>SysCatalogTable\<close>. Methods of the class become functions that take
  the object's fields as a record and return the updated record. Collaborators whose code is
  outside \<^verbatim>\<open>sys_catalog.cc\<close> (tablet peer, consensus metadata, wire protocol, protobuf
  parsing) are parameters: records of functions that give, for each call, the status and the
  out-parameters the collaborator produces.
\<close>

subsection \<open>Status\<close>

datatype StatusCode =
    kNotFound | kCorruption | kNotSupported | kInvalidArgument | kIOError
  | kAlreadyPresent | kRuntimeError | kNetworkError | kIllegalState | kNotAuthorized
  | kAborted | kRemoteError | kServiceUnavailable | kTimedOut | kUninitialized
  | kConfigurationError | kIncomplete | kEndOfFile

text \<open>A \<^verbatim>\<open>Status\<close> is either OK or a code with a message.\<close>

datatype Status = OK | NotOK StatusCode string

definition ok :: "Status \<Rightarrow> bool" where
  "ok s = (s = OK)"

fun IsTimedOut :: "Status \<Rightarrow> bool" where
  "IsTimedOut OK = False"
| "IsTimedOut (NotOK c m) = (c = kTimedOut)"

text \<open>
  The two-message constructors \<^verbatim>\<open>Status::Corruption(msg, msg2)\<close> and friends: the second
  message, when not empty, follows the first after a colon and a space.
\<close>

definition Status2 :: "StatusCode \<Rightarrow> string \<Rightarrow> string \<Rightarrow> Status" where
  "Status2 c msg msg2 = NotOK c (if msg2 = [] then msg else msg @ '': '' @ msg2)"

definition Status_Corruption :: "string \<Rightarrow> Status" where
  "Status_Corruption msg = Status2 kCorruption msg []"

definition Status_InvalidArgument :: "string \<Rightarrow> Status" where
  "Status_InvalidArgument msg = Status2 kInvalidArgument msg []"

definition Status_RuntimeError :: "string \<Rightarrow> Status" where
  "Status_RuntimeError msg = Status2 kRuntimeError msg []"

text \<open>
  \<^verbatim>\<open>RETURN_NOT_OK_PREPEND(s, msg)\<close> returns \<^verbatim>\<open>s.CloneAndPrepend(msg)\<close> when \<^verbatim>\<open>s\<close> is not
  OK: the same code, the prefix as first message and the message of \<^verbatim>\<open>s\<close> as second,
  so that the separator is left out when \<^verbatim>\<open>s\<close> has an empty message.
\<close>

fun CloneAndPrepend :: "Status \<Rightarrow> string \<Rightarrow> Status" where
  "CloneAndPrepend OK msg = OK"
| "CloneAndPrepend (NotOK c m) msg = Status2 c msg m"

subsection \<open>WaitUntilRunning\<close>

datatype MonoDelta = MonoDelta_FromSeconds nat

text \<open>
  The tablet peer's \<^verbatim>\<open>WaitUntilConsensusRunning(timeout)\<close> is a parameter: its result at
  the n-th call (counting from 0) with the given timeout. The loop of the source has no
  bound, so the function is partial: \<open>None\<close> is "never returns". The counter
  \<^verbatim>\<open>seconds_waited\<close> is the number of polls made so far. It is an \<^verbatim>\<open>int\<close> in the
  source, incremented once per poll and only written to the log; it is a natural number
  here. The wait goes through the tablet peer handle, which \<^verbatim>\<open>SetupTablet\<close> has set.
\<close>

partial_function (option) WaitUntilRunning_loop ::
  "(nat \<Rightarrow> MonoDelta \<Rightarrow> Status) \<Rightarrow> nat \<Rightarrow> Status option" where
  "WaitUntilRunning_loop WaitUntilConsensusRunning seconds_waited =
     (if ok (WaitUntilConsensusRunning seconds_waited (MonoDelta_FromSeconds 1))
      then Some OK
      else if IsTimedOut (WaitUntilConsensusRunning seconds_waited (MonoDelta_FromSeconds 1))
      then WaitUntilRunning_loop WaitUntilConsensusRunning (seconds_waited + 1)
      else Some (WaitUntilConsensusRunning seconds_waited (MonoDelta_FromSeconds 1)))"

definition WaitUntilRunning :: "(nat \<Rightarrow> MonoDelta \<Rightarrow> Status) \<Rightarrow> Status option" where
  "WaitUntilRunning WaitUntilConsensusRunning =
     WaitUntilRunning_loop WaitUntilConsensusRunning 0"

subsection \<open>Tablet rows handed to a visitor\<close>

text \<open>
  The fields of the protobuf messages that \<^verbatim>\<open>sys_catalog.cc\<close> reads or writes. An optional
  field is an \<open>option\<close>: \<open>None\<close> is "not set" (\<^verbatim>\<open>has_x()\<close> is false), and the getter of
  an unset string field returns the empty string. The field \<^verbatim>\<open>partition\<close> is
  \<open>partition_pb\<close> here, the name \<open>partition\<close> being a list function of HOL.
\<close>

record PartitionPB =
  partition_key_start :: "string option"
  partition_key_end :: "string option"

record SysTabletsEntryPB =
  deprecated_start_key :: "string option"
  deprecated_end_key :: "string option"
  partition_pb :: "PartitionPB option"
  table_id :: string

definition has_partition :: "SysTabletsEntryPB \<Rightarrow> bool" where
  "has_partition m = (partition_pb m \<noteq> None)"

definition get_deprecated_start_key :: "SysTabletsEntryPB \<Rightarrow> string" where
  "get_deprecated_start_key m = (case deprecated_start_key m of None \<Rightarrow> [] | Some k \<Rightarrow> k)"

definition get_deprecated_end_key :: "SysTabletsEntryPB \<Rightarrow> string" where
  "get_deprecated_end_key m = (case deprecated_end_key m of None \<Rightarrow> [] | Some k \<Rightarrow> k)"

text \<open>\<^verbatim>\<open>mutable_partition()\<close> creates an empty partition record when there is none.\<close>

definition mutable_partition :: "SysTabletsEntryPB \<Rightarrow> PartitionPB" where
  "mutable_partition m =
     (case partition_pb m of
        None \<Rightarrow> \<lparr>partition_key_start = None, partition_key_end = None\<rparr>
      | Some p \<Rightarrow> p)"

definition set_partition_key_start :: "SysTabletsEntryPB \<Rightarrow> string \<Rightarrow> SysTabletsEntryPB" where
  "set_partition_key_start m k =
     m\<lparr>partition_pb := Some ((mutable_partition m)\<lparr>partition_key_start := Some k\<rparr>)\<rparr>"

definition set_partition_key_end :: "SysTabletsEntryPB \<Rightarrow> string \<Rightarrow> SysTabletsEntryPB" where
  "set_partition_key_end m k =
     m\<lparr>partition_pb := Some ((mutable_partition m)\<lparr>partition_key_end := Some k\<rparr>)\<rparr>"

definition clear_deprecated_start_key :: "SysTabletsEntryPB \<Rightarrow> SysTabletsEntryPB" where
  "clear_deprecated_start_key m = m\<lparr>deprecated_start_key := None\<rparr>"

definition clear_deprecated_end_key :: "SysTabletsEntryPB \<Rightarrow> SysTabletsEntryPB" where
  "clear_deprecated_end_key m = m\<lparr>deprecated_end_key := None\<rparr>"

text \<open>
  A row of the catalog tablet as a scan returns it: the three columns of the catalog schema.
\<close>

datatype CatalogEntryType = TABLES_ENTRY | TABLETS_ENTRY

record RowBlockRow =
  row_entry_type :: CatalogEntryType
  row_entry_id :: string
  row_metadata :: string

text \<open>
  \<^verbatim>\<open>VisitTabletFromRow\<close>. The protobuf parser \<^verbatim>\<open>pb_util::ParseFromArray\<close> and the
  visitor's \<^verbatim>\<open>VisitTablet\<close> are parameters; the visitor has a state of its own, which
  the call may change.
\<close>

definition VisitTabletFromRow ::
  "(string \<Rightarrow> Status \<times> SysTabletsEntryPB) \<Rightarrow> RowBlockRow \<Rightarrow>
   (string \<Rightarrow> string \<Rightarrow> SysTabletsEntryPB \<Rightarrow> 'v \<Rightarrow> Status \<times> 'v) \<Rightarrow> 'v \<Rightarrow> Status \<times> 'v" where
  "VisitTabletFromRow ParseFromArray row VisitTablet visitor =
     (let tablet_id = row_entry_id row;
          data = row_metadata row;
          (s, metadata) = ParseFromArray data
      in if \<not> ok s
         then (CloneAndPrepend s (''Unable to parse metadata field for tablet '' @ tablet_id),
               visitor)
         else
           let metadata =
                 (if \<not> has_partition metadata
                  then
                    let m1 = set_partition_key_start metadata (get_deprecated_start_key metadata);
                        m2 = set_partition_key_end m1 (get_deprecated_end_key metadata);
                        m3 = clear_deprecated_start_key m2
                    in clear_deprecated_end_key m3
                  else metadata);
               (s, visitor) = VisitTablet (table_id metadata) tablet_id metadata visitor
           in if \<not> ok s then (s, visitor) else (OK, visitor))"

text \<open>A visitor that records every record it is handed, newest first, and accepts it.\<close>

definition recording_visitor ::
  "string \<Rightarrow> string \<Rightarrow> SysTabletsEntryPB \<Rightarrow> SysTabletsEntryPB list \<Rightarrow>
   Status \<times> SysTabletsEntryPB list" where
  "recording_visitor tbl_id tablet_id metadata seen = (OK, metadata # seen)"

subsection \<open>Outcomes of a call\<close>

text \<open>
  A call returns, aborts the process (a failed \<^verbatim>\<open>CHECK\<close>, a null handle dereferenced), or
  blocks for ever (a latch that is never released).
\<close>

datatype 'a outcome = Returns 'a | Crashes | Blocks

text \<open>Sequencing: the rest of a function runs on what the first call returns.\<close>

fun outcome_bind :: "'a outcome \<Rightarrow> ('a \<Rightarrow> 'b outcome) \<Rightarrow> 'b outcome" where
  "outcome_bind (Returns x) f = f x"
| "outcome_bind Crashes f = Crashes"
| "outcome_bind Blocks f = Blocks"

text \<open>
  \<^verbatim>\<open>CHECK_OK(call)\<close> aborts the process when the status of the call is not OK; otherwise the
  function goes on with what the call left in the object it was made on.
\<close>

definition CHECK_OK :: "Status \<times> 'a \<Rightarrow> 'a outcome" where
  "CHECK_OK r = (if ok (fst r) then Returns (snd r) else Crashes)"

subsection \<open>The write path: requests, responses, actions\<close>

datatype DataType = INT8 | STRING

record ColumnSchema =
  col_name :: string
  col_type :: DataType
  col_is_nullable :: bool

record Schema =
  schema_cols :: "ColumnSchema list"
  num_key_columns :: nat

datatype SchemaPB = SchemaPB Schema

definition kSysCatalogTableColType :: string where
  "kSysCatalogTableColType = ''entry_type''"

definition kSysCatalogTableColId :: string where
  "kSysCatalogTableColId = ''entry_id''"

definition kSysCatalogTableColMetadata :: string where
  "kSysCatalogTableColMetadata = ''metadata''"

definition kSysCatalogTabletId :: string where
  "kSysCatalogTabletId = ''00000000000000000000000000000000''"

definition kInjectedFailureStatusMsg :: string where
  "kInjectedFailureStatusMsg = ''INJECTED FAILURE''"

text \<open>
  \<^verbatim>\<open>BuildTableSchema\<close>: two key columns and one value column, added in this order.
\<close>

definition BuildTableSchema :: Schema where
  "BuildTableSchema =
     \<lparr>schema_cols =
        [\<lparr>col_name = kSysCatalogTableColType, col_type = INT8, col_is_nullable = False\<rparr>,
         \<lparr>col_name = kSysCatalogTableColId, col_type = STRING, col_is_nullable = False\<rparr>,
         \<lparr>col_name = kSysCatalogTableColMetadata, col_type = STRING,
          col_is_nullable = False\<rparr>],
      num_key_columns = 2\<rparr>"

text \<open>
  A partial row: the schema it was made for (\<^verbatim>\<open>KuduPartialRow row(&schema_)\<close>) and the
  cells set so far, each under the name of its column, in the order in which the columns
  were first set.
\<close>

datatype Cell = Int8Cell CatalogEntryType | StringCell string

record KuduPartialRow =
  row_schema :: Schema
  row_cells :: "(string \<times> Cell) list"

definition KuduPartialRow_new :: "Schema \<Rightarrow> KuduPartialRow" where
  "KuduPartialRow_new s = \<lparr>row_schema = s, row_cells = []\<rparr>"

fun cell_update :: "string \<Rightarrow> Cell \<Rightarrow> (string \<times> Cell) list \<Rightarrow> (string \<times> Cell) list" where
  "cell_update name v [] = [(name, v)]"
| "cell_update name v ((n, w) # cells) =
     (if n = name then (name, v) # cells else (n, w) # cell_update name v cells)"

text \<open>
  Modelled from the spec: the setters of \<^verbatim>\<open>KuduPartialRow\<close> (kudu/common/partial\_row.cc)
  are not in this file. A setter names a column of the row's schema and a value of the
  column's type: it fails with not-found when the schema has no column of that name, with
  invalid-argument when the column has another type, and stores the cell otherwise.
\<close>

definition KuduPartialRow_Set ::
  "string \<Rightarrow> DataType \<Rightarrow> Cell \<Rightarrow> KuduPartialRow \<Rightarrow> Status \<times> KuduPartialRow" where
  "KuduPartialRow_Set name t v row =
     (case find (\<lambda>c. col_name c = name) (schema_cols (row_schema row)) of
        None \<Rightarrow> (NotOK kNotFound (''No such column: '' @ name), row)
      | Some c \<Rightarrow>
          if col_type c \<noteq> t
          then (NotOK kInvalidArgument (''invalid type for column: '' @ name), row)
          else (OK, row\<lparr>row_cells := cell_update name v (row_cells row)\<rparr>))"

definition SetInt8 ::
  "string \<Rightarrow> CatalogEntryType \<Rightarrow> KuduPartialRow \<Rightarrow> Status \<times> KuduPartialRow" where
  "SetInt8 name val row = KuduPartialRow_Set name INT8 (Int8Cell val) row"

definition SetStringNoCopy ::
  "string \<Rightarrow> string \<Rightarrow> KuduPartialRow \<Rightarrow> Status \<times> KuduPartialRow" where
  "SetStringNoCopy name val row = KuduPartialRow_Set name STRING (StringCell val) row"

datatype RowOperationType = INSERT | UPDATE | DELETE

type_synonym RowOperationsPB = "(RowOperationType \<times> (string \<times> Cell) list) list"

text \<open>
  Modelled from the spec: \<^verbatim>\<open>RowOperationsPBEncoder\<close> (kudu/common/row\_operations.cc) is
  not in this file. \<^verbatim>\<open>Add\<close> emits one row operation: it appends the operation type and a
  copy of the row's cells, as they are at the call, to the request's row operations.
\<close>

definition RowOperationsPBEncoder_Add ::
  "RowOperationType \<Rightarrow> KuduPartialRow \<Rightarrow> RowOperationsPB \<Rightarrow> RowOperationsPB" where
  "RowOperationsPBEncoder_Add op_type row pb = pb @ [(op_type, row_cells row)]"

record WriteRequestPB =
  req_tablet_id :: "string option"
  req_schema :: "SchemaPB option"
  row_operations :: RowOperationsPB

definition WriteRequestPB_new :: WriteRequestPB where
  "WriteRequestPB_new = \<lparr>req_tablet_id = None, req_schema = None, row_operations = []\<rparr>"

record AppStatusPB =
  app_status_code :: nat
  app_status_message :: string

record TabletServerErrorPB =
  error_code :: nat
  error_status :: AppStatusPB

record PerRowErrorPB =
  row_index :: nat
  row_error :: AppStatusPB

record WriteResponsePB =
  resp_error :: "TabletServerErrorPB option"
  per_row_errors :: "PerRowErrorPB list"

definition WriteResponsePB_new :: WriteResponsePB where
  "WriteResponsePB_new = \<lparr>resp_error = None, per_row_errors = []\<rparr>"

text \<open>
  The table and tablet descriptors of the catalog manager, as far as this file reads them:
  the id and the dirty metadata record (\<^verbatim>\<open>metadata().dirty().pb\<close>).
\<close>

record SysTablesEntryPB =
  SysTablesEntryPB_name :: string

record TableInfo =
  TableInfo_id :: string
  TableInfo_dirty_pb :: SysTablesEntryPB

record TabletInfo =
  TabletInfo_tablet_id :: string
  TabletInfo_dirty_pb :: SysTabletsEntryPB

record Actions =
  table_to_add :: "TableInfo option"
  table_to_update :: "TableInfo option"
  table_to_delete :: "TableInfo option"
  tablets_to_add :: "TabletInfo list"
  tablets_to_update :: "TabletInfo list"
  tablets_to_delete :: "TabletInfo list"

text \<open>The constructor \<^verbatim>\<open>Actions::Actions()\<close>: null singletons, empty vectors.\<close>

definition Actions_new :: Actions where
  "Actions_new =
     \<lparr>table_to_add = None, table_to_update = None, table_to_delete = None,
      tablets_to_add = [], tablets_to_update = [], tablets_to_delete = []\<rparr>"

subsection \<open>Addresses and consensus configuration\<close>

record HostPort =
  hp_host :: string
  hp_port :: nat

record HostPortPB =
  pb_host :: string
  pb_port :: nat

datatype MemberType = UNKNOWN_MEMBER_TYPE | NON_VOTER | VOTER

record RaftPeerPB =
  permanent_uuid :: "string option"
  member_type :: "MemberType option"
  last_known_addr :: "HostPortPB option"

definition RaftPeerPB_new :: RaftPeerPB where
  "RaftPeerPB_new = \<lparr>permanent_uuid = None, member_type = None, last_known_addr = None\<rparr>"

text \<open>The getter of an unset message field returns the default message.\<close>

definition get_last_known_addr :: "RaftPeerPB \<Rightarrow> HostPortPB" where
  "get_last_known_addr p =
     (case last_known_addr p of None \<Rightarrow> \<lparr>pb_host = [], pb_port = 0\<rparr> | Some a \<Rightarrow> a)"

record RaftConfigPB =
  obsolete_local :: "bool option"
  opid_index :: "int option"
  peers :: "RaftPeerPB list"

definition RaftConfigPB_new :: RaftConfigPB where
  "RaftConfigPB_new = \<lparr>obsolete_local = None, opid_index = None, peers = []\<rparr>"

record ConsensusStatePB =
  current_term :: int
  cstate_config :: RaftConfigPB

datatype RaftConfigState = UNCOMMITTED_QUORUM | COMMITTED_QUORUM

subsection \<open>The object and its collaborators on the write path\<close>

text \<open>
  The fields of \<^verbatim>\<open>SysCatalogTable\<close>. The tablet peer handle is null until
  \<^verbatim>\<open>SetupTablet\<close> sets it; the apply pool is built by the constructor and never null.
  \<open>'p\<close> is the state of the tablet peer (with the tablet and the log it manages),
  \<open>'t\<close> the state of the thread pool. The member names are written without their
  trailing underscore (\<^verbatim>\<open>tablet_peer_\<close> is \<open>tablet_peer\<close>).
\<close>

record ('p, 't) SysCatalogTable =
  tablet_peer :: "'p option"
  apply_pool :: 't
  schema :: Schema
  key_schema :: Schema
  local_peer_pb :: RaftPeerPB

text \<open>
  What the write path calls outside this file. \<^verbatim>\<open>SubmitWrite\<close> gives the status of the
  submission, the response as the completion callback has filled it when the latch is
  released (\<open>None\<close>: the callback never runs), and the tablet peer afterwards.
\<close>

record 'p WriteCollaborators =
  sys_catalog_fail_during_write :: real
  SchemaToPB :: "Schema \<Rightarrow> Status \<times> SchemaPB"
  SerializeTable :: "SysTablesEntryPB \<Rightarrow> string"
  SerializeTablet :: "SysTabletsEntryPB \<Rightarrow> string"
  SubmitWrite :: "'p \<Rightarrow> WriteRequestPB \<Rightarrow> WriteResponsePB \<Rightarrow> Status \<times> WriteResponsePB option \<times> 'p"
  StatusFromPB :: "AppStatusPB \<Rightarrow> Status"

text \<open>
  Modelled from the spec: the macro \<^verbatim>\<open>MAYBE_RETURN_FAILURE\<close> (kudu/util/fault\_injection.h)
  is not in this file. With the configured probability the hook fails at once: \<open>draw\<close> is
  the number in [0, 1) that the random generator yields at this call, and the fault is
  injected when the draw is below the fraction.
\<close>

definition MAYBE_RETURN_FAILURE :: "real \<Rightarrow> real \<Rightarrow> bool" where
  "MAYBE_RETURN_FAILURE fraction draw = (draw < fraction)"

subsection \<open>SyncWrite\<close>

definition SyncWrite ::
  "'p WriteCollaborators \<Rightarrow> real \<Rightarrow> WriteRequestPB \<Rightarrow> WriteResponsePB \<Rightarrow>
   ('p, 't) SysCatalogTable \<Rightarrow> (Status \<times> WriteResponsePB \<times> ('p, 't) SysCatalogTable) outcome" where
  "SyncWrite env draw req resp st =
     (if MAYBE_RETURN_FAILURE (sys_catalog_fail_during_write env) draw
      then Returns (Status_RuntimeError kInjectedFailureStatusMsg, resp, st)
      else
        case tablet_peer st of
          None \<Rightarrow> Crashes
        | Some peer \<Rightarrow>
            (case SubmitWrite env peer req resp of
               (s, completion, peer') \<Rightarrow>
                 let st' = st\<lparr>tablet_peer := Some peer'\<rparr> in
                 if \<not> ok s
                 then Returns (s, (case completion of None \<Rightarrow> resp | Some r \<Rightarrow> r), st')
                 else
                   (case completion of
                      None \<Rightarrow> Blocks
                    | Some resp' \<Rightarrow>
                        (case resp_error resp' of
                           Some e \<Rightarrow> Returns (StatusFromPB env (error_status e), resp', st')
                         | None \<Rightarrow>
                             if length (per_row_errors resp') > 0
                             then Returns
                                    (Status_Corruption ''One or more rows failed to write'',
                                     resp', st')
                             else Returns (OK, resp', st')))))"

subsection \<open>Building the request: tables\<close>

text \<open>
  Every setter is called under \<^verbatim>\<open>CHECK_OK\<close>: the functions that build the request abort
  when the schema of the object lacks a column they set.
\<close>

definition ReqAddTable ::
  "'p WriteCollaborators \<Rightarrow> ('p, 't) SysCatalogTable \<Rightarrow> WriteRequestPB \<Rightarrow> TableInfo \<Rightarrow>
   WriteRequestPB outcome" where
  "ReqAddTable env st req table =
     (let metadata_buf = SerializeTable env (TableInfo_dirty_pb table);
          row = KuduPartialRow_new (schema st)
      in outcome_bind (CHECK_OK (SetInt8 kSysCatalogTableColType TABLES_ENTRY row)) (\<lambda>row.
         outcome_bind (CHECK_OK (SetStringNoCopy kSysCatalogTableColId (TableInfo_id table) row))
           (\<lambda>row.
         outcome_bind (CHECK_OK (SetStringNoCopy kSysCatalogTableColMetadata metadata_buf row))
           (\<lambda>row.
         Returns (req\<lparr>row_operations :=
                         RowOperationsPBEncoder_Add INSERT row (row_operations req)\<rparr>)))))"

definition ReqUpdateTable ::
  "'p WriteCollaborators \<Rightarrow> ('p, 't) SysCatalogTable \<Rightarrow> WriteRequestPB \<Rightarrow> TableInfo \<Rightarrow>
   WriteRequestPB outcome" where
  "ReqUpdateTable env st req table =
     (let metadata_buf = SerializeTable env (TableInfo_dirty_pb table);
          row = KuduPartialRow_new (schema st)
      in outcome_bind (CHECK_OK (SetInt8 kSysCatalogTableColType TABLES_ENTRY row)) (\<lambda>row.
         outcome_bind (CHECK_OK (SetStringNoCopy kSysCatalogTableColId (TableInfo_id table) row))
           (\<lambda>row.
         outcome_bind (CHECK_OK (SetStringNoCopy kSysCatalogTableColMetadata metadata_buf row))
           (\<lambda>row.
         Returns (req\<lparr>row_operations :=
                         RowOperationsPBEncoder_Add UPDATE row (row_operations req)\<rparr>)))))"

definition ReqDeleteTable ::
  "('p, 't) SysCatalogTable \<Rightarrow> WriteRequestPB \<Rightarrow> TableInfo \<Rightarrow> WriteRequestPB outcome" where
  "ReqDeleteTable st req table =
     (let row = KuduPartialRow_new (schema st)
      in outcome_bind (CHECK_OK (SetInt8 kSysCatalogTableColType TABLES_ENTRY row)) (\<lambda>row.
         outcome_bind (CHECK_OK (SetStringNoCopy kSysCatalogTableColId (TableInfo_id table) row))
           (\<lambda>row.
         Returns (req\<lparr>row_operations :=
                         RowOperationsPBEncoder_Add DELETE row (row_operations req)\<rparr>))))"

subsection \<open>Building the request: tablets\<close>

text \<open>
  Each of the three functions makes one row and one encoder before its loop and reuses
  them for every tablet; the loop state is the row and the row operations written so far.
\<close>

fun ReqAddTablets_loop ::
  "'p WriteCollaborators \<Rightarrow> TabletInfo list \<Rightarrow> KuduPartialRow \<Rightarrow> RowOperationsPB \<Rightarrow>
   RowOperationsPB outcome" where
  "ReqAddTablets_loop env [] row ops = Returns ops"
| "ReqAddTablets_loop env (tablet # tablets) row ops =
     (let metadata_buf = SerializeTablet env (TabletInfo_dirty_pb tablet)
      in case CHECK_OK (SetInt8 kSysCatalogTableColType TABLETS_ENTRY row) of
           Crashes \<Rightarrow> Crashes
         | Blocks \<Rightarrow> Blocks
         | Returns row \<Rightarrow>
         (case CHECK_OK (SetStringNoCopy kSysCatalogTableColId
                           (TabletInfo_tablet_id tablet) row) of
            Crashes \<Rightarrow> Crashes
          | Blocks \<Rightarrow> Blocks
          | Returns row \<Rightarrow>
          (case CHECK_OK (SetStringNoCopy kSysCatalogTableColMetadata metadata_buf row) of
             Crashes \<Rightarrow> Crashes
           | Blocks \<Rightarrow> Blocks
           | Returns row \<Rightarrow>
               ReqAddTablets_loop env tablets row
                 (RowOperationsPBEncoder_Add INSERT row ops))))"

definition ReqAddTablets ::
  "'p WriteCollaborators \<Rightarrow> ('p, 't) SysCatalogTable \<Rightarrow> WriteRequestPB \<Rightarrow> TabletInfo list \<Rightarrow>
   WriteRequestPB outcome" where
  "ReqAddTablets env st req tablets =
     outcome_bind
       (ReqAddTablets_loop env tablets (KuduPartialRow_new (schema st)) (row_operations req))
       (\<lambda>ops. Returns (req\<lparr>row_operations := ops\<rparr>))"

fun ReqUpdateTablets_loop ::
  "'p WriteCollaborators \<Rightarrow> TabletInfo list \<Rightarrow> KuduPartialRow \<Rightarrow> RowOperationsPB \<Rightarrow>
   RowOperationsPB outcome" where
  "ReqUpdateTablets_loop env [] row ops = Returns ops"
| "ReqUpdateTablets_loop env (tablet # tablets) row ops =
     (let metadata_buf = SerializeTablet env (TabletInfo_dirty_pb tablet)
      in case CHECK_OK (SetInt8 kSysCatalogTableColType TABLETS_ENTRY row) of
           Crashes \<Rightarrow> Crashes
         | Blocks \<Rightarrow> Blocks
         | Returns row \<Rightarrow>
         (case CHECK_OK (SetStringNoCopy kSysCatalogTableColId
                           (TabletInfo_tablet_id tablet) row) of
            Crashes \<Rightarrow> Crashes
          | Blocks \<Rightarrow> Blocks
          | Returns row \<Rightarrow>
          (case CHECK_OK (SetStringNoCopy kSysCatalogTableColMetadata metadata_buf row) of
             Crashes \<Rightarrow> Crashes
           | Blocks \<Rightarrow> Blocks
           | Returns row \<Rightarrow>
               ReqUpdateTablets_loop env tablets row
                 (RowOperationsPBEncoder_Add UPDATE row ops))))"

definition ReqUpdateTablets ::
  "'p WriteCollaborators \<Rightarrow> ('p, 't) SysCatalogTable \<Rightarrow> WriteRequestPB \<Rightarrow> TabletInfo list \<Rightarrow>
   WriteRequestPB outcome" where
  "ReqUpdateTablets env st req tablets =
     outcome_bind
       (ReqUpdateTablets_loop env tablets (KuduPartialRow_new (schema st)) (row_operations req))
       (\<lambda>ops. Returns (req\<lparr>row_operations := ops\<rparr>))"

fun ReqDeleteTablets_loop ::
  "TabletInfo list \<Rightarrow> KuduPartialRow \<Rightarrow> RowOperationsPB \<Rightarrow> RowOperationsPB outcome" where
  "ReqDeleteTablets_loop [] row ops = Returns ops"
| "ReqDeleteTablets_loop (tablet # tablets) row ops =
     (case CHECK_OK (SetInt8 kSysCatalogTableColType TABLETS_ENTRY row) of
        Crashes \<Rightarrow> Crashes
      | Blocks \<Rightarrow> Blocks
      | Returns row \<Rightarrow>
      (case CHECK_OK (SetStringNoCopy kSysCatalogTableColId
                        (TabletInfo_tablet_id tablet) row) of
         Crashes \<Rightarrow> Crashes
       | Blocks \<Rightarrow> Blocks
       | Returns row \<Rightarrow>
           ReqDeleteTablets_loop tablets row (RowOperationsPBEncoder_Add DELETE row ops)))"

definition ReqDeleteTablets ::
  "('p, 't) SysCatalogTable \<Rightarrow> WriteRequestPB \<Rightarrow> TabletInfo list \<Rightarrow> WriteRequestPB outcome" where
  "ReqDeleteTablets st req tablets =
     outcome_bind
       (ReqDeleteTablets_loop tablets (KuduPartialRow_new (schema st)) (row_operations req))
       (\<lambda>ops. Returns (req\<lparr>row_operations := ops\<rparr>))"

subsection \<open>Write\<close>

definition Write ::
  "'p WriteCollaborators \<Rightarrow> real \<Rightarrow> Actions \<Rightarrow> ('p, 't) SysCatalogTable \<Rightarrow>
   (Status \<times> ('p, 't) SysCatalogTable) outcome" where
  "Write env draw actions st =
     (let req = WriteRequestPB_new;
          resp = WriteResponsePB_new;
          req = req\<lparr>req_tablet_id := Some kSysCatalogTabletId\<rparr>;
          (s, schema_pb) = SchemaToPB env (schema st)
      in if \<not> ok s then Returns (s, st)
         else
           let req = req\<lparr>req_schema := Some schema_pb\<rparr>
           in outcome_bind
                (case table_to_add actions of
                   Some table \<Rightarrow> ReqAddTable env st req table | None \<Rightarrow> Returns req) (\<lambda>req.
              outcome_bind
                (case table_to_update actions of
                   Some table \<Rightarrow> ReqUpdateTable env st req table | None \<Rightarrow> Returns req) (\<lambda>req.
              outcome_bind
                (case table_to_delete actions of
                   Some table \<Rightarrow> ReqDeleteTable st req table | None \<Rightarrow> Returns req) (\<lambda>req.
              outcome_bind (ReqAddTablets env st req (tablets_to_add actions)) (\<lambda>req.
              outcome_bind (ReqUpdateTablets env st req (tablets_to_update actions)) (\<lambda>req.
              outcome_bind (ReqDeleteTablets st req (tablets_to_delete actions)) (\<lambda>req.
                case SyncWrite env draw req resp st of
                  Returns (s, resp', st') \<Rightarrow>
                    if \<not> ok s then Returns (s, st') else Returns (OK, st')
                | Crashes \<Rightarrow> Crashes
                | Blocks \<Rightarrow> Blocks)))))))"

text \<open>
  A tablet peer for examples: its state is the list of the requests submitted to it, oldest
  first; it accepts every request and completes it with an empty response.
\<close>

definition logging_SubmitWrite ::
  "WriteRequestPB list \<Rightarrow> WriteRequestPB \<Rightarrow> WriteResponsePB \<Rightarrow>
   Status \<times> WriteResponsePB option \<times> WriteRequestPB list" where
  "logging_SubmitWrite submitted req resp = (OK, Some WriteResponsePB_new, submitted @ [req])"

definition example_write_env :: "real \<Rightarrow> (WriteRequestPB list) WriteCollaborators" where
  "example_write_env fraction =
     \<lparr>sys_catalog_fail_during_write = fraction,
      SchemaToPB = (\<lambda>s. (OK, SchemaPB s)),
      SerializeTable = SysTablesEntryPB_name,
      SerializeTablet = table_id,
      SubmitWrite = logging_SubmitWrite,
      StatusFromPB = (\<lambda>pb. NotOK kRemoteError (app_status_message pb))\<rparr>"

definition example_catalog :: "(WriteRequestPB list, unit) SysCatalogTable" where
  "example_catalog =
     \<lparr>tablet_peer = Some [], apply_pool = (),
      schema = BuildTableSchema, key_schema = BuildTableSchema,
      local_peer_pb = RaftPeerPB_new\<rparr>"

subsection \<open>Collaborators of start-up and shutdown\<close>

record TabletMetadata =
  tm_tablet_id :: string
  tm_schema :: Schema

record ConsensusMetadata =
  cmeta_current_term :: int
  cmeta_committed_config :: RaftConfigPB

record FsManager =
  fs_uuid :: string

text \<open>
  The options of the master: the configured addresses, and what \<^verbatim>\<open>IsDistributed()\<close>
  answers.
\<close>

record MasterOptions =
  master_addresses :: "HostPort list"
  IsDistributed :: bool

text \<open>
  What start-up calls in the file system, the consensus library and the wire protocol. A
  function with an out-parameter gives its status and the value it leaves in the
  out-parameter.
\<close>

record MasterCollaborators =
  opts :: MasterOptions
  TabletMetadata_Load :: "FsManager \<Rightarrow> string \<Rightarrow> Status \<times> TabletMetadata"
  ConsensusMetadata_Load :: "FsManager \<Rightarrow> string \<Rightarrow> string \<Rightarrow> Status \<times> ConsensusMetadata"
  VerifyConsensusState :: "ConsensusStatePB \<Rightarrow> RaftConfigState \<Rightarrow> Status"
  VerifyRaftConfig :: "RaftConfigPB \<Rightarrow> RaftConfigState \<Rightarrow> Status"
  HostPortFromPB :: "HostPortPB \<Rightarrow> Status \<times> HostPort"
  HostPortToPB :: "HostPort \<Rightarrow> Status \<times> HostPortPB"
  HostPort_ToString :: "HostPort \<Rightarrow> string"
  Schema_ToString :: "Schema \<Rightarrow> string"
  SetPermanentUuidForRemotePeer :: "RaftPeerPB \<Rightarrow> Status \<times> RaftPeerPB"
  SecureShortDebugString :: "RaftPeerPB \<Rightarrow> string"
  kInvalidOpIdIndex :: int

text \<open>
  What start-up and shutdown call on the tablet peer, the tablet and the thread pool.
  \<open>first_rpc_hostport\<close> is the result of \<^verbatim>\<open>HostPortFromSockaddrReplaceWildcard\<close> on the
  first RPC address of the master; \<open>tablet_schema\<close> is the schema of the bootstrapped
  tablet.
\<close>

record ('p, 't) TabletCollaborators =
  master_fs_uuid :: string
  first_rpc_hostport :: "Status \<times> HostPort"
  new_TabletPeer :: "TabletMetadata \<Rightarrow> RaftPeerPB \<Rightarrow> 't \<Rightarrow> 'p"
  SetBootstrapping :: "'p \<Rightarrow> 'p"
  BootstrapTablet :: "TabletMetadata \<Rightarrow> 'p \<Rightarrow> Status \<times> 'p"
  TabletPeer_Init :: "'p \<Rightarrow> Status \<times> 'p"
  TabletPeer_Start :: "'p \<Rightarrow> Status \<times> 'p"
  RegisterMaintenanceOps :: "'p \<Rightarrow> 'p"
  tablet_schema :: "'p \<Rightarrow> Schema"
  BuildWithoutIds :: "Schema \<Rightarrow> Schema"
  CreateKeyProjection :: "Schema \<Rightarrow> Schema"
  TabletPeer_Shutdown :: "'p \<Rightarrow> 'p"
  ThreadPool_Shutdown :: "'t \<Rightarrow> 't"

subsection \<open>Constructor and Shutdown\<close>

text \<open>
  The constructor builds the apply pool under \<^verbatim>\<open>CHECK_OK\<close> and leaves the tablet peer
  handle null; \<open>pool\<close> is the pool built.
\<close>

definition SysCatalogTable_new :: "'t \<Rightarrow> ('p, 't) SysCatalogTable" where
  "SysCatalogTable_new pool =
     \<lparr>tablet_peer = None, apply_pool = pool,
      schema = \<lparr>schema_cols = [], num_key_columns = 0\<rparr>,
      key_schema = \<lparr>schema_cols = [], num_key_columns = 0\<rparr>,
      local_peer_pb = RaftPeerPB_new\<rparr>"

text \<open>Following a handle: a null handle aborts the process.\<close>

definition deref :: "'a option \<Rightarrow> 'a outcome" where
  "deref h = (case h of None \<Rightarrow> Crashes | Some x \<Rightarrow> Returns x)"

definition Shutdown ::
  "('p, 't) TabletCollaborators \<Rightarrow> ('p, 't) SysCatalogTable \<Rightarrow> ('p, 't) SysCatalogTable outcome" where
  "Shutdown tenv st =
     (case (if tablet_peer st \<noteq> None
            then (case deref (tablet_peer st) of
                    Returns peer \<Rightarrow> Returns (st\<lparr>tablet_peer := Some (TabletPeer_Shutdown tenv peer)\<rparr>)
                  | Crashes \<Rightarrow> Crashes
                  | Blocks \<Rightarrow> Blocks)
            else Returns st) of
        Returns st \<Rightarrow> Returns (st\<lparr>apply_pool := ThreadPool_Shutdown tenv (apply_pool st)\<rparr>)
      | Crashes \<Rightarrow> Crashes
      | Blocks \<Rightarrow> Blocks)"

subsection \<open>SetupTablet\<close>

definition InitLocalRaftPeerPB ::
  "MasterCollaborators \<Rightarrow> ('p, 't) TabletCollaborators \<Rightarrow> ('p, 't) SysCatalogTable \<Rightarrow>
   ('p, 't) SysCatalogTable outcome" where
  "InitLocalRaftPeerPB env tenv st =
     (let st = st\<lparr>local_peer_pb :=
                   (local_peer_pb st)\<lparr>permanent_uuid := Some (master_fs_uuid tenv)\<rparr>\<rparr>;
          (s, hp) = first_rpc_hostport tenv
      in if \<not> ok s then Crashes
         else
           let (s, addr_pb) = HostPortToPB env hp
           in if \<not> ok s then Crashes
              else Returns (st\<lparr>local_peer_pb :=
                                (local_peer_pb st)\<lparr>last_known_addr := Some addr_pb\<rparr>\<rparr>))"

definition SetupTablet ::
  "MasterCollaborators \<Rightarrow> ('p, 't) TabletCollaborators \<Rightarrow> TabletMetadata \<Rightarrow>
   ('p, 't) SysCatalogTable \<Rightarrow> (Status \<times> ('p, 't) SysCatalogTable) outcome" where
  "SetupTablet env tenv tablet_metadata st =
     (case InitLocalRaftPeerPB env tenv st of
        Crashes \<Rightarrow> Crashes
      | Blocks \<Rightarrow> Blocks
      | Returns st \<Rightarrow>
          let peer = new_TabletPeer tenv tablet_metadata (local_peer_pb st) (apply_pool st);
              peer = SetBootstrapping tenv peer;
              (s, peer) = BootstrapTablet tenv tablet_metadata peer;
              st = st\<lparr>tablet_peer := Some peer\<rparr>
          in if \<not> ok s then Returns (s, st)
             else
               let (s, peer) = TabletPeer_Init tenv peer;
                   st = st\<lparr>tablet_peer := Some peer\<rparr>
               in if \<not> ok s
                  then Returns (CloneAndPrepend s ''Failed to Init() TabletPeer'', st)
                  else
                    let (s, peer) = TabletPeer_Start tenv peer;
                        st = st\<lparr>tablet_peer := Some peer\<rparr>
                    in if \<not> ok s
                       then Returns (CloneAndPrepend s ''Failed to Start() TabletPeer'', st)
                       else
                         let peer = RegisterMaintenanceOps tenv peer;
                             st = st\<lparr>tablet_peer := Some peer\<rparr>;
                             st = st\<lparr>schema := BuildWithoutIds tenv (tablet_schema tenv peer)\<rparr>;
                             st = st\<lparr>key_schema := CreateKeyProjection tenv (schema st)\<rparr>
                         in Returns (OK, st))"

subsection \<open>Sets of strings, their symmetric difference, joining\<close>

text \<open>
  A \<^verbatim>\<open>std::set<string>\<close> is the list of its elements in iteration order: ascending and
  without duplicates. Strings compare as byte sequences, lexicographically.
\<close>

definition std_set_insert :: "'a::linorder \<Rightarrow> 'a list \<Rightarrow> 'a list" where
  "std_set_insert x xs = (if x \<in> set xs then xs else insort x xs)"

text \<open>
  \<^verbatim>\<open>std::set_symmetric_difference\<close> on two ascending ranges, writing through a back
  inserter into an empty vector: the two ranges are merged, an element in both being
  dropped.
\<close>

fun set_symmetric_difference :: "'a::linorder list \<Rightarrow> 'a list \<Rightarrow> 'a list" where
  "set_symmetric_difference [] ys = ys"
| "set_symmetric_difference (x # xs) [] = x # xs"
| "set_symmetric_difference (x # xs) (y # ys) =
     (if x < y then x # set_symmetric_difference xs (y # ys)
      else if y < x then y # set_symmetric_difference (x # xs) ys
      else set_symmetric_difference xs ys)"

fun JoinStrings :: "string list \<Rightarrow> string \<Rightarrow> string" where
  "JoinStrings [] delim = []"
| "JoinStrings [x] delim = x"
| "JoinStrings (x # y # ys) delim = x @ delim @ JoinStrings (y # ys) delim"

subsection \<open>Load\<close>

text \<open>
  Modelled from the spec: \<^verbatim>\<open>Schema::Equals\<close> (kudu/common/schema.h) is not in this file.
  The persisted schema is compared with the canonical one: the same key columns and the
  same columns, each with the same name, type and nullability.
\<close>

definition Schema_Equals :: "Schema \<Rightarrow> Schema \<Rightarrow> bool" where
  "Schema_Equals a b = (num_key_columns a = num_key_columns b \<and> schema_cols a = schema_cols b)"

text \<open>
  Modelled from the spec: \<^verbatim>\<open>ConsensusMetadata::ToConsensusStatePB\<close>
  (kudu/consensus/consensus\_meta.cc) is not in this file. For the committed configuration
  it reconstructs the consensus state from the persisted term and committed configuration.
\<close>

definition ToConsensusStatePB_COMMITTED :: "ConsensusMetadata \<Rightarrow> ConsensusStatePB" where
  "ToConsensusStatePB_COMMITTED cmeta =
     \<lparr>current_term = cmeta_current_term cmeta,
      cstate_config = cmeta_committed_config cmeta\<rparr>"

fun peer_addrs_from_opts_loop ::
  "MasterCollaborators \<Rightarrow> HostPort list \<Rightarrow> string list \<Rightarrow> string list" where
  "peer_addrs_from_opts_loop env [] peer_addrs_from_opts = peer_addrs_from_opts"
| "peer_addrs_from_opts_loop env (hp # hps) peer_addrs_from_opts =
     peer_addrs_from_opts_loop env hps
       (std_set_insert (HostPort_ToString env hp) peer_addrs_from_opts)"

fun peer_addrs_from_disk_loop ::
  "MasterCollaborators \<Rightarrow> RaftPeerPB list \<Rightarrow> string list \<Rightarrow> Status \<times> string list" where
  "peer_addrs_from_disk_loop env [] peer_addrs_from_disk = (OK, peer_addrs_from_disk)"
| "peer_addrs_from_disk_loop env (p # ps) peer_addrs_from_disk =
     (let (s, hp) = HostPortFromPB env (get_last_known_addr p)
      in if \<not> ok s then (s, peer_addrs_from_disk)
         else peer_addrs_from_disk_loop env ps
                (std_set_insert (HostPort_ToString env hp) peer_addrs_from_disk))"

text \<open>
  The block of \<^verbatim>\<open>Load\<close> that runs in distributed mode; its result is the status
  \<^verbatim>\<open>Load\<close> returns from inside the block, or OK when the block runs to its end.
\<close>

definition Load_verify_consensus ::
  "MasterCollaborators \<Rightarrow> FsManager \<Rightarrow> TabletMetadata \<Rightarrow> Status" where
  "Load_verify_consensus env fs_manager tablet_metadata =
     (let tablet_id = tm_tablet_id tablet_metadata;
          (s, cmeta) = ConsensusMetadata_Load env fs_manager tablet_id (fs_uuid fs_manager)
      in if \<not> ok s
         then CloneAndPrepend s (''Unable to load consensus metadata for tablet '' @ tablet_id)
         else
           let cstate = ToConsensusStatePB_COMMITTED cmeta;
               s = VerifyConsensusState env cstate COMMITTED_QUORUM
           in if \<not> ok s then s
              else
                let peer_addrs_from_opts =
                      peer_addrs_from_opts_loop env (master_addresses (opts env)) [];
                    (s, peer_addrs_from_disk) =
                      peer_addrs_from_disk_loop env (peers (cstate_config cstate)) []
                in if \<not> ok s then s
                   else
                     let symm_diff =
                           set_symmetric_difference peer_addrs_from_opts peer_addrs_from_disk
                     in if symm_diff \<noteq> []
                        then
                          let msg = ''on-disk and provided master lists are different: '' @
                                    JoinStrings symm_diff '' ''
                          in Status_InvalidArgument msg
                        else OK)"

definition Load ::
  "MasterCollaborators \<Rightarrow> ('p, 't) TabletCollaborators \<Rightarrow> FsManager \<Rightarrow>
   ('p, 't) SysCatalogTable \<Rightarrow> (Status \<times> ('p, 't) SysCatalogTable) outcome" where
  "Load env tenv fs_manager st =
     (let (s, tablet_metadata) = TabletMetadata_Load env fs_manager kSysCatalogTabletId
      in if \<not> ok s then Returns (s, st)
         else if \<not> Schema_Equals (tm_schema tablet_metadata) BuildTableSchema
         then Returns (Status2 kCorruption ''Unexpected schema''
                         (Schema_ToString env (tm_schema tablet_metadata)), st)
         else
           let s = (if IsDistributed (opts env)
                    then Load_verify_consensus env fs_manager tablet_metadata
                    else OK)
           in if \<not> ok s then Returns (s, st)
              else
                (case SetupTablet env tenv tablet_metadata st of
                   Returns (s, st') \<Rightarrow> if \<not> ok s then Returns (s, st') else Returns (OK, st')
                 | Crashes \<Rightarrow> Crashes
                 | Blocks \<Rightarrow> Blocks))"

subsection \<open>CreateDistributedConfig\<close>

text \<open>
  The two loops return at the first failure; outside them the function has the
  configuration built so far. \<^verbatim>\<open>DCHECK\<close>s are compiled out of release builds and are
  left out.
\<close>

fun CreateDistributedConfig_peers_loop ::
  "MasterCollaborators \<Rightarrow> HostPort list \<Rightarrow> RaftConfigPB \<Rightarrow> Status \<times> RaftConfigPB" where
  "CreateDistributedConfig_peers_loop env [] new_config = (OK, new_config)"
| "CreateDistributedConfig_peers_loop env (host_port # rest) new_config =
     (let peer = RaftPeerPB_new;
          (s, peer_host_port_pb) = HostPortToPB env host_port
      in if \<not> ok s then (s, new_config)
         else
           let peer = peer\<lparr>last_known_addr := Some peer_host_port_pb\<rparr>;
               peer = peer\<lparr>member_type := Some VOTER\<rparr>;
               new_config = new_config\<lparr>peers := peers new_config @ [peer]\<rparr>
           in CreateDistributedConfig_peers_loop env rest new_config)"

fun CreateDistributedConfig_resolve_loop ::
  "MasterCollaborators \<Rightarrow> RaftPeerPB list \<Rightarrow> RaftConfigPB \<Rightarrow> Status \<times> RaftConfigPB" where
  "CreateDistributedConfig_resolve_loop env [] resolved_config = (OK, resolved_config)"
| "CreateDistributedConfig_resolve_loop env (peer # rest) resolved_config =
     (if permanent_uuid peer \<noteq> None
      then CreateDistributedConfig_resolve_loop env rest
             (resolved_config\<lparr>peers := peers resolved_config @ [peer]\<rparr>)
      else
        let new_peer = peer;
            (s, new_peer) = SetPermanentUuidForRemotePeer env new_peer
        in if \<not> ok s
           then (CloneAndPrepend s
                   (''Unable to resolve UUID for peer '' @ SecureShortDebugString env peer),
                 resolved_config)
           else CreateDistributedConfig_resolve_loop env rest
                  (resolved_config\<lparr>peers := peers resolved_config @ [new_peer]\<rparr>))"

text \<open>
  The second argument is the value of \<^verbatim>\<open>*committed_config\<close> at the call, the second
  component of the result its value at the return.
\<close>

definition CreateDistributedConfig ::
  "MasterCollaborators \<Rightarrow> MasterOptions \<Rightarrow> RaftConfigPB \<Rightarrow> Status \<times> RaftConfigPB" where
  "CreateDistributedConfig env options committed_config =
     (let new_config = RaftConfigPB_new;
          new_config = new_config\<lparr>obsolete_local := Some False\<rparr>;
          new_config = new_config\<lparr>opid_index := Some (kInvalidOpIdIndex env)\<rparr>;
          (s, new_config) =
            CreateDistributedConfig_peers_loop env (master_addresses options) new_config
      in if \<not> ok s then (s, committed_config)
         else
           let resolved_config = new_config;
               resolved_config = resolved_config\<lparr>peers := []\<rparr>;
               (s, resolved_config) =
                 CreateDistributedConfig_resolve_loop env (peers new_config) resolved_config
           in if \<not> ok s then (s, committed_config)
              else
                let s = VerifyRaftConfig env resolved_config COMMITTED_QUORUM
                in if \<not> ok s then (s, committed_config)
                   else (OK, resolved_config))"

subsection \<open>The order of row operations, as the specification words it\<close>

text \<open>
  The row operations of one \<^verbatim>\<open>Write\<close> as the specification lists them: the table
  add, the table update and the table delete, each if present, then the tablet adds, the
  tablet updates and the tablet deletes, each group in the order of its input vector. An
  insert or update carries the key columns and the serialized metadata, a delete the key
  columns only.
\<close>

definition spec_table_op ::
  "'p WriteCollaborators \<Rightarrow> RowOperationType \<Rightarrow> TableInfo \<Rightarrow>
   RowOperationType \<times> (string \<times> Cell) list" where
  "spec_table_op env op_type t =
     (op_type,
      [(kSysCatalogTableColType, Int8Cell TABLES_ENTRY),
       (kSysCatalogTableColId, StringCell (TableInfo_id t))] @
      (if op_type = DELETE then []
       else [(kSysCatalogTableColMetadata,
              StringCell (SerializeTable env (TableInfo_dirty_pb t)))]))"

definition spec_tablet_op ::
  "'p WriteCollaborators \<Rightarrow> RowOperationType \<Rightarrow> TabletInfo \<Rightarrow>
   RowOperationType \<times> (string \<times> Cell) list" where
  "spec_tablet_op env op_type t =
     (op_type,
      [(kSysCatalogTableColType, Int8Cell TABLETS_ENTRY),
       (kSysCatalogTableColId, StringCell (TabletInfo_tablet_id t))] @
      (if op_type = DELETE then []
       else [(kSysCatalogTableColMetadata,
              StringCell (SerializeTablet env (TabletInfo_dirty_pb t)))]))"

definition spec_row_operations :: "'p WriteCollaborators \<Rightarrow> Actions \<Rightarrow> RowOperationsPB" where
  "spec_row_operations env actions =
     map (spec_table_op env INSERT) (case table_to_add actions of None \<Rightarrow> [] | Some t \<Rightarrow> [t]) @
     map (spec_table_op env UPDATE) (case table_to_update actions of None \<Rightarrow> [] | Some t \<Rightarrow> [t]) @
     map (spec_table_op env DELETE) (case table_to_delete actions of None \<Rightarrow> [] | Some t \<Rightarrow> [t]) @
     map (spec_tablet_op env INSERT) (tablets_to_add actions) @
     map (spec_tablet_op env UPDATE) (tablets_to_update actions) @
     map (spec_tablet_op env DELETE) (tablets_to_delete actions)"

text \<open>
  Whether the setters the actions call all succeed on a schema: every row operation sets the
  two key columns, and every insert or update sets the metadata column as well.
\<close>

definition has_column :: "Schema \<Rightarrow> string \<Rightarrow> DataType \<Rightarrow> bool" where
  "has_column s name t =
     (case find (\<lambda>c. col_name c = name) (schema_cols s) of
        None \<Rightarrow> False
      | Some c \<Rightarrow> col_type c = t)"

definition sets_key_columns :: "Actions \<Rightarrow> bool" where
  "sets_key_columns actions =
     (table_to_add actions \<noteq> None \<or> table_to_update actions \<noteq> None \<or>
      table_to_delete actions \<noteq> None \<or> tablets_to_add actions \<noteq> [] \<or>
      tablets_to_update actions \<noteq> [] \<or> tablets_to_delete actions \<noteq> [])"

definition sets_metadata_column :: "Actions \<Rightarrow> bool" where
  "sets_metadata_column actions =
     (table_to_add actions \<noteq> None \<or> table_to_update actions \<noteq> None \<or>
      tablets_to_add actions \<noteq> [] \<or> tablets_to_update actions \<noteq> [])"

definition setters_succeed :: "Schema \<Rightarrow> Actions \<Rightarrow> bool" where
  "setters_succeed s actions =
     ((sets_key_columns actions \<longrightarrow>
         has_column s kSysCatalogTableColType INT8 \<and> has_column s kSysCatalogTableColId STRING) \<and>
      (sets_metadata_column actions \<longrightarrow> has_column s kSysCatalogTableColMetadata STRING))"

subsection \<open>Example tables, tablets and tablet peers\<close>

definition example_tablet :: "string \<Rightarrow> TabletInfo" where
  "example_tablet name =
     \<lparr>TabletInfo_tablet_id = name,
      TabletInfo_dirty_pb =
        \<lparr>deprecated_start_key = None, deprecated_end_key = None,
         partition_pb = Some \<lparr>partition_key_start = Some [], partition_key_end = Some []\<rparr>,
         table_id = ''T1''\<rparr>\<rparr>"

definition example_table :: TableInfo where
  "example_table =
     \<lparr>TableInfo_id = ''T1'', TableInfo_dirty_pb = \<lparr>SysTablesEntryPB_name = ''users''\<rparr>\<rparr>"

definition example_actions :: Actions where
  "example_actions =
     \<lparr>table_to_add = Some example_table, table_to_update = None,
      table_to_delete = Some example_table,
      tablets_to_add = [example_tablet ''S1'', example_tablet ''S2''],
      tablets_to_update = [example_tablet ''S3''],
      tablets_to_delete = [example_tablet ''S4'']\<rparr>"

definition failing_SubmitWrite ::
  "WriteRequestPB list \<Rightarrow> WriteRequestPB \<Rightarrow> WriteResponsePB \<Rightarrow>
   Status \<times> WriteResponsePB option \<times> WriteRequestPB list" where
  "failing_SubmitWrite submitted req resp =
     (OK,
      Some \<lparr>resp_error =
               (if row_operations req = [] then
                  Some \<lparr>error_code = 1,
                        error_status = \<lparr>app_status_code = 7, app_status_message = ''empty''\<rparr>\<rparr>
                else None),
            per_row_errors =
              [\<lparr>row_index = 0,
                row_error = \<lparr>app_status_code = 5, app_status_message = ''key exists''\<rparr>\<rparr>]\<rparr>,
      submitted @ [req])"

text \<open>
  A tablet peer that rejects every submission: it is not the leader. No transaction is
  made, so the completion callback never runs and the response stays as it was.
\<close>

definition rejecting_SubmitWrite ::
  "WriteRequestPB list \<Rightarrow> WriteRequestPB \<Rightarrow> WriteResponsePB \<Rightarrow>
   Status \<times> WriteResponsePB option \<times> WriteRequestPB list" where
  "rejecting_SubmitWrite submitted req resp = (NotOK kIllegalState ''not leader'', None, submitted)"

subsection \<open>The address sets and the configuration steps, as the specification words them\<close>

text \<open>
  The set of master addresses from the startup options, the set of peer addresses persisted
  in the consensus metadata, and whether every persisted address converts to a host and
  port.
\<close>

definition spec_addrs_from_opts :: "MasterCollaborators \<Rightarrow> string set" where
  "spec_addrs_from_opts env = HostPort_ToString env ` set (master_addresses (opts env))"

definition spec_addrs_from_disk :: "MasterCollaborators \<Rightarrow> ConsensusMetadata \<Rightarrow> string set" where
  "spec_addrs_from_disk env cmeta =
     (\<lambda>p. HostPort_ToString env (snd (HostPortFromPB env (get_last_known_addr p)))) `
       set (peers (cmeta_committed_config cmeta))"

definition disk_addrs_convert :: "MasterCollaborators \<Rightarrow> ConsensusMetadata \<Rightarrow> bool" where
  "disk_addrs_convert env cmeta =
     (\<forall>p\<in>set (peers (cmeta_committed_config cmeta)).
        ok (fst (HostPortFromPB env (get_last_known_addr p))))"

text \<open>
  The initial configuration of a distributed catalog: the peer entry built for a configured
  address (a voter, no UUID yet), the configuration with every peer resolved, and the
  three steps that can fail: converting an address, resolving a UUID, verifying the
  resolved configuration.
\<close>

definition spec_config_peer :: "MasterCollaborators \<Rightarrow> HostPort \<Rightarrow> RaftPeerPB" where
  "spec_config_peer env hp =
     \<lparr>permanent_uuid = None, member_type = Some VOTER,
      last_known_addr = Some (snd (HostPortToPB env hp))\<rparr>"

definition spec_resolved_config :: "MasterCollaborators \<Rightarrow> MasterOptions \<Rightarrow> RaftConfigPB" where
  "spec_resolved_config env options =
     \<lparr>obsolete_local = Some False, opid_index = Some (kInvalidOpIdIndex env),
      peers = map (\<lambda>hp. snd (SetPermanentUuidForRemotePeer env (spec_config_peer env hp)))
                (master_addresses options)\<rparr>"

definition spec_config_steps_succeed :: "MasterCollaborators \<Rightarrow> MasterOptions \<Rightarrow> bool" where
  "spec_config_steps_succeed env options =
     ((\<forall>hp\<in>set (master_addresses options). ok (fst (HostPortToPB env hp))) \<and>
      (\<forall>hp\<in>set (master_addresses options).
         ok (fst (SetPermanentUuidForRemotePeer env (spec_config_peer env hp)))) \<and>
      ok (VerifyRaftConfig env (spec_resolved_config env options) COMMITTED_QUORUM))"

subsection \<open>An example cluster\<close>

text \<open>Decimal digits of a number, for port numbers.\<close>

fun string_of_nat :: "nat \<Rightarrow> string" where
  "string_of_nat n =
     (if n < 10 then [''0123456789'' ! n]
      else string_of_nat (n div 10) @ [''0123456789'' ! (n mod 10)])"

declare string_of_nat.simps [simp del]

text \<open>
  How the example cluster prints an address: host, colon, port, as in \<^verbatim>\<open>m3:7051\<close>.
  (\<^verbatim>\<open>HostPort::ToString\<close> itself is a parameter of the model.)
\<close>

definition example_ToString :: "HostPort \<Rightarrow> string" where
  "example_ToString hp = hp_host hp @ '':'' @ string_of_nat (hp_port hp)"

definition master_at :: "string \<Rightarrow> HostPort" where
  "master_at h = \<lparr>hp_host = h, hp_port = 7051\<rparr>"

definition voter :: "string \<Rightarrow> string \<Rightarrow> RaftPeerPB" where
  "voter uuid h =
     \<lparr>permanent_uuid = Some uuid, member_type = Some VOTER,
      last_known_addr = Some \<lparr>pb_host = h, pb_port = 7051\<rparr>\<rparr>"

text \<open>
  Masters m1, m2 and m3 persisted on disk with UUIDs u1, u2 and u3; this master is m2. The
  configured addresses are a parameter. UUID discovery answers for every host but
  \<^verbatim>\<open>down\<close>.
\<close>

definition example_master_env :: "HostPort list \<Rightarrow> MasterCollaborators" where
  "example_master_env addrs =
     \<lparr>opts = \<lparr>master_addresses = addrs, IsDistributed = (addrs \<noteq> [])\<rparr>,
      TabletMetadata_Load =
        (\<lambda>fs tablet_id. (OK, \<lparr>tm_tablet_id = tablet_id, tm_schema = BuildTableSchema\<rparr>)),
      ConsensusMetadata_Load =
        (\<lambda>fs tablet_id uuid.
           (OK, \<lparr>cmeta_current_term = 1,
                 cmeta_committed_config =
                   \<lparr>obsolete_local = Some False, opid_index = Some (- 1),
                    peers = [voter ''u1'' ''m1'', voter ''u2'' ''m2'', voter ''u3'' ''m3'']\<rparr>\<rparr>)),
      VerifyConsensusState = (\<lambda>cstate t. OK),
      VerifyRaftConfig =
        (\<lambda>c t. if peers c = [] then NotOK kIllegalState ''no peers'' else OK),
      HostPortFromPB = (\<lambda>pb. (OK, \<lparr>hp_host = pb_host pb, hp_port = pb_port pb\<rparr>)),
      HostPortToPB = (\<lambda>hp. (OK, \<lparr>pb_host = hp_host hp, pb_port = hp_port hp\<rparr>)),
      HostPort_ToString = example_ToString,
      Schema_ToString = (\<lambda>s. ''Schema''),
      SetPermanentUuidForRemotePeer =
        (\<lambda>p. if pb_host (get_last_known_addr p) = ''down''
             then (NotOK kNetworkError ''connection refused'', p)
             else (OK, p\<lparr>permanent_uuid := Some (''u-'' @ pb_host (get_last_known_addr p))\<rparr>)),
      SecureShortDebugString = (\<lambda>p. pb_host (get_last_known_addr p)),
      kInvalidOpIdIndex = - 1\<rparr>"

text \<open>
  A tablet peer that starts without error once bootstrapped; the status of the bootstrap
  is a parameter. The state of the thread pool is whether it is running.
\<close>

definition example_tablet_env :: "Status \<Rightarrow> (WriteRequestPB list, bool) TabletCollaborators" where
  "example_tablet_env bootstrap_status =
     \<lparr>master_fs_uuid = ''u2'',
      first_rpc_hostport = (OK, master_at ''m2''),
      new_TabletPeer = (\<lambda>tablet_metadata peer_pb pool. []),
      SetBootstrapping = (\<lambda>p. p),
      BootstrapTablet = (\<lambda>tablet_metadata p. (bootstrap_status, p)),
      TabletPeer_Init = (\<lambda>p. (OK, p)),
      TabletPeer_Start = (\<lambda>p. (OK, p)),
      RegisterMaintenanceOps = (\<lambda>p. p),
      tablet_schema = (\<lambda>p. BuildTableSchema),
      BuildWithoutIds = (\<lambda>s. s),
      CreateKeyProjection = (\<lambda>s. s\<lparr>schema_cols := take (num_key_columns s) (schema_cols s)\<rparr>),
      TabletPeer_Shutdown = (\<lambda>p. p),
      ThreadPool_Shutdown = (\<lambda>running. False)\<rparr>"

definition three_masters :: "HostPort list" where
  "three_masters = [master_at ''m1'', master_at ''m2'', master_at ''m3'']"

definition replaced_masters :: "HostPort list" where
  "replaced_masters = [master_at ''m1'', master_at ''m2'', master_at ''m4'']"

definition one_master_down :: "HostPort list" where
  "one_master_down = [master_at ''m1'', master_at ''down'', master_at ''m3'']"

text \<open>
  The cluster restarted with m3 replaced by m4 in the options, in two variants: the
  committed consensus state on disk does not pass verification, and the schema on disk has
  a fourth column.
\<close>

definition unverified_master_env :: MasterCollaborators where
  "unverified_master_env =
     (example_master_env replaced_masters)
       \<lparr>VerifyConsensusState := (\<lambda>cstate t. NotOK kIllegalState ''leader is not a voter'')\<rparr>"

definition drifted_master_env :: MasterCollaborators where
  "drifted_master_env =
     (example_master_env replaced_masters)
       \<lparr>TabletMetadata_Load :=
          (\<lambda>fs tablet_id.
             (OK, \<lparr>tm_tablet_id = tablet_id,
                   tm_schema =
                     BuildTableSchema
                       \<lparr>schema_cols := schema_cols BuildTableSchema @
                          [\<lparr>col_name = ''extra'', col_type = STRING,
                            col_is_nullable = False\<rparr>]\<rparr>\<rparr>))\<rparr>"

definition example_fs :: FsManager where
  "example_fs = \<lparr>fs_uuid = ''u2''\<rparr>"

definition example_cmeta :: ConsensusMetadata where
  "example_cmeta = snd (ConsensusMetadata_Load (example_master_env three_masters) example_fs
                          kSysCatalogTabletId ''u2'')"

section \<open>Properties\<close>

subsection \<open>Status\<close>

lemma CloneAndPrepend_not_ok: "\<not> ok s \<Longrightarrow> \<not> ok (CloneAndPrepend s msg)"
  by (cases s) (simp_all add: ok_def Status2_def)

subsection \<open>WaitUntilRunning\<close>

lemma IsTimedOut_not_ok: "IsTimedOut s \<Longrightarrow> \<not> ok s"
  by (cases s) (simp_all add: ok_def)

lemma WaitUntilRunning_loop_first:
  "(\<And>i. i < k \<Longrightarrow> IsTimedOut (poll (n + i) (MonoDelta_FromSeconds 1))) \<Longrightarrow>
   \<not> IsTimedOut (poll (n + k) (MonoDelta_FromSeconds 1)) \<Longrightarrow>
   WaitUntilRunning_loop poll n = Some (poll (n + k) (MonoDelta_FromSeconds 1))"
proof (induction k arbitrary: n)
  case 0
  then show ?case
    by (subst WaitUntilRunning_loop.simps) (simp add: ok_def)
next
  case (Suc k)
  have first: "IsTimedOut (poll n (MonoDelta_FromSeconds 1))"
    using Suc.prems(1) [of 0] by simp
  have rest: "WaitUntilRunning_loop poll (Suc n)
                = Some (poll (Suc n + k) (MonoDelta_FromSeconds 1))"
  proof (rule Suc.IH)
    fix i assume "i < k"
    then show "IsTimedOut (poll (Suc n + i) (MonoDelta_FromSeconds 1))"
      using Suc.prems(1) [of "Suc i"] by simp
  next
    show "\<not> IsTimedOut (poll (Suc n + k) (MonoDelta_FromSeconds 1))"
      using Suc.prems(2) by simp
  qed
  show ?case
    using first rest IsTimedOut_not_ok [OF first]
    by (subst WaitUntilRunning_loop.simps) simp
qed

lemma WaitUntilRunning_loop_returns:
  assumes ret: "WaitUntilRunning_loop p m = Some r"
  shows "\<exists>i. \<not> IsTimedOut (p i (MonoDelta_FromSeconds 1))"
proof (rule WaitUntilRunning_loop.raw_induct
    [where P = "\<lambda>p m r. \<exists>i. \<not> IsTimedOut (p i (MonoDelta_FromSeconds 1))", OF _ ret])
  fix f :: "(nat \<Rightarrow> MonoDelta \<Rightarrow> Status) \<Rightarrow> nat \<Rightarrow> Status option" and q n s
  assume IH: "\<And>q' n' s'. f q' n' = Some s' \<Longrightarrow>
                \<exists>i. \<not> IsTimedOut (q' i (MonoDelta_FromSeconds 1))"
    and step: "(if ok (q n (MonoDelta_FromSeconds 1)) then Some OK
                else if IsTimedOut (q n (MonoDelta_FromSeconds 1)) then f q (n + 1)
                else Some (q n (MonoDelta_FromSeconds 1))) = Some s"
  show "\<exists>i. \<not> IsTimedOut (q i (MonoDelta_FromSeconds 1))"
  proof (cases "IsTimedOut (q n (MonoDelta_FromSeconds 1))")
    case True
    then have "f q (n + 1) = Some s"
      using step IsTimedOut_not_ok by (simp split: if_splits)
    then show ?thesis by (rule IH)
  next
    case False
    then show ?thesis by blast
  qed
qed

lemma WaitUntilRunning_loop_forever:
  assumes all: "\<And>i. IsTimedOut (poll i (MonoDelta_FromSeconds 1))"
  shows "WaitUntilRunning_loop poll n = None"
proof (cases "WaitUntilRunning_loop poll n")
  case None
  then show ?thesis .
next
  case (Some s)
  then show ?thesis
    using WaitUntilRunning_loop_returns [of poll n s] all by blast
qed

text \<open>
  C6. Every poll asks for one second. If the polls before the k-th all time out and the k-th
  does not, the wait returns what the k-th poll returned: OK when it is OK, the status itself
  otherwise. If every poll times out, the wait never returns.
\<close>

theorem WaitUntilRunning_first_decisive_poll:
  "((\<forall>i<k. IsTimedOut (poll i (MonoDelta_FromSeconds 1))) \<and>
    \<not> IsTimedOut (poll k (MonoDelta_FromSeconds 1))
      \<longrightarrow> WaitUntilRunning poll = Some (poll k (MonoDelta_FromSeconds 1))) \<and>
   ((\<forall>i<k. IsTimedOut (poll i (MonoDelta_FromSeconds 1))) \<and>
    ok (poll k (MonoDelta_FromSeconds 1))
      \<longrightarrow> WaitUntilRunning poll = Some OK) \<and>
   ((\<forall>i. IsTimedOut (poll i (MonoDelta_FromSeconds 1)))
      \<longrightarrow> WaitUntilRunning poll = None)"
proof (intro conjI impI)
  assume h: "(\<forall>i<k. IsTimedOut (poll i (MonoDelta_FromSeconds 1))) \<and>
             \<not> IsTimedOut (poll k (MonoDelta_FromSeconds 1))"
  show "WaitUntilRunning poll = Some (poll k (MonoDelta_FromSeconds 1))"
    using WaitUntilRunning_loop_first [of k poll 0] h
    by (simp add: WaitUntilRunning_def)
next
  assume h: "(\<forall>i<k. IsTimedOut (poll i (MonoDelta_FromSeconds 1))) \<and>
             ok (poll k (MonoDelta_FromSeconds 1))"
  then have "\<not> IsTimedOut (poll k (MonoDelta_FromSeconds 1))"
    using IsTimedOut_not_ok by blast
  then have "WaitUntilRunning poll = Some (poll k (MonoDelta_FromSeconds 1))"
    using WaitUntilRunning_loop_first [of k poll 0] h
    by (simp add: WaitUntilRunning_def)
  with h show "WaitUntilRunning poll = Some OK"
    by (simp add: ok_def)
next
  assume "\<forall>i. IsTimedOut (poll i (MonoDelta_FromSeconds 1))"
  then show "WaitUntilRunning poll = None"
    using WaitUntilRunning_loop_forever [of poll 0]
    by (simp add: WaitUntilRunning_def)
qed

theorem WaitUntilRunning_first_decisive_poll_witness:
  "WaitUntilRunning
     (\<lambda>i d. if i < 2 then NotOK kTimedOut ''not running'' else NotOK kIllegalState ''shut down'')
     = Some (NotOK kIllegalState ''shut down'') \<and>
   WaitUntilRunning (\<lambda>i d. if i < 3 then NotOK kTimedOut ''not running'' else OK) = Some OK \<and>
   WaitUntilRunning (\<lambda>i d. NotOK kTimedOut ''not running'') = None"
  using
    WaitUntilRunning_first_decisive_poll
      [of 2 "\<lambda>i d. if i < 2 then NotOK kTimedOut ''not running''
                   else NotOK kIllegalState ''shut down''"]
    WaitUntilRunning_first_decisive_poll
      [of 3 "\<lambda>i d. if i < 3 then NotOK kTimedOut ''not running'' else OK"]
    WaitUntilRunning_first_decisive_poll [of 0 "\<lambda>i d. NotOK kTimedOut ''not running''"]
  by (simp add: ok_def)

subsection \<open>VisitTabletFromRow\<close>

lemma ok_OK: "ok s \<Longrightarrow> s = OK"
  by (simp add: ok_def)

lemma VisitTabletFromRow_parsed:
  assumes "ParseFromArray (row_metadata row) = (OK, md)"
  shows "VisitTabletFromRow ParseFromArray row VisitTablet v =
           (let md' = (if partition_pb md = None
                       then md\<lparr>partition_pb :=
                                 Some \<lparr>partition_key_start = Some (get_deprecated_start_key md),
                                       partition_key_end = Some (get_deprecated_end_key md)\<rparr>,
                               deprecated_start_key := None, deprecated_end_key := None\<rparr>
                       else md)
            in VisitTablet (table_id md') (row_entry_id row) md' v)"
  using assms
  by (auto simp: VisitTabletFromRow_def Let_def ok_def has_partition_def
      set_partition_key_start_def set_partition_key_end_def mutable_partition_def
      clear_deprecated_start_key_def clear_deprecated_end_key_def
      get_deprecated_start_key_def get_deprecated_end_key_def
      split: prod.splits option.splits)

text \<open>
  C7, as the code has it. For a row whose metadata parses, the visitor is called once, with a
  record whose partition is populated. When the parsed record has no partition record, the
  partition is built from the deprecated start and end keys (the empty string for one that
  is not set) and both deprecated fields are cleared. When the parsed record has a partition
  record, the record is handed over as parsed, its deprecated fields included.
\<close>

theorem VisitTabletFromRow_upgrades_when_partition_missing:
  assumes "ParseFromArray (row_metadata row) = (OK, md)"
  shows "\<exists>md'. VisitTabletFromRow ParseFromArray row VisitTablet v =
                 VisitTablet (table_id md') (row_entry_id row) md' v \<and>
               partition_pb md' \<noteq> None \<and>
               table_id md' = table_id md \<and>
               (partition_pb md = None \<longrightarrow>
                  partition_pb md' =
                    Some \<lparr>partition_key_start = Some (get_deprecated_start_key md),
                          partition_key_end = Some (get_deprecated_end_key md)\<rparr> \<and>
                  deprecated_start_key md' = None \<and> deprecated_end_key md' = None) \<and>
               (partition_pb md \<noteq> None \<longrightarrow> md' = md)"
proof (cases "partition_pb md")
  case None
  then show ?thesis
    using assms VisitTabletFromRow_parsed [of ParseFromArray row md VisitTablet v]
    by (intro exI [of _ "md\<lparr>partition_pb :=
                                 Some \<lparr>partition_key_start = Some (get_deprecated_start_key md),
                                       partition_key_end = Some (get_deprecated_end_key md)\<rparr>,
                               deprecated_start_key := None, deprecated_end_key := None\<rparr>"])
       (simp add: Let_def)
next
  case (Some p)
  then show ?thesis
    using assms VisitTabletFromRow_parsed [of ParseFromArray row md VisitTablet v]
    by (intro exI [of _ md]) (simp add: Let_def)
qed

text \<open>
  The theorem at a row written by an old version: no partition record, deprecated keys set.
  The recording visitor receives the upgraded record.
\<close>

theorem VisitTabletFromRow_upgrades_when_partition_missing_witness:
  "VisitTabletFromRow
     (\<lambda>data. (OK, \<lparr>deprecated_start_key = Some ''a'', deprecated_end_key = Some ''m'',
                     partition_pb = None, table_id = ''t1''\<rparr>))
     \<lparr>row_entry_type = TABLETS_ENTRY, row_entry_id = ''tablet1'', row_metadata = ''blob''\<rparr>
     recording_visitor []
   = (OK, [\<lparr>deprecated_start_key = None, deprecated_end_key = None,
             partition_pb = Some \<lparr>partition_key_start = Some ''a'',
                               partition_key_end = Some ''m''\<rparr>,
             table_id = ''t1''\<rparr>])"
  using VisitTabletFromRow_upgrades_when_partition_missing
    [of "\<lambda>data. (OK, \<lparr>deprecated_start_key = Some ''a'', deprecated_end_key = Some ''m'',
                        partition_pb = None, table_id = ''t1''\<rparr>)"
        "\<lparr>row_entry_type = TABLETS_ENTRY, row_entry_id = ''tablet1'', row_metadata = ''blob''\<rparr>"
        "\<lparr>deprecated_start_key = Some ''a'', deprecated_end_key = Some ''m'',
          partition_pb = None, table_id = ''t1''\<rparr>"
        recording_visitor "[]"]
  by (auto simp: recording_visitor_def get_deprecated_start_key_def
      get_deprecated_end_key_def)

text \<open>
  C7 as stated fails: a parsed record that carries a partition record and deprecated keys is
  handed to the visitor with the deprecated keys still set.
\<close>

theorem VisitTabletFromRow_keeps_deprecated_counterexample:
  "VisitTabletFromRow
     (\<lambda>data. (OK, \<lparr>deprecated_start_key = Some ''a'', deprecated_end_key = Some ''m'',
                     partition_pb = Some \<lparr>partition_key_start = Some ''a'',
                                       partition_key_end = Some ''m''\<rparr>,
                     table_id = ''t1''\<rparr>))
     \<lparr>row_entry_type = TABLETS_ENTRY, row_entry_id = ''tablet1'', row_metadata = ''blob''\<rparr>
     recording_visitor []
   = (OK, [\<lparr>deprecated_start_key = Some ''a'', deprecated_end_key = Some ''m'',
             partition_pb = Some \<lparr>partition_key_start = Some ''a'',
                               partition_key_end = Some ''m''\<rparr>,
             table_id = ''t1''\<rparr>])"
  by (simp add: VisitTabletFromRow_def Let_def ok_def has_partition_def recording_visitor_def)

subsection \<open>Write and SyncWrite\<close>

lemma CHECK_OK_Set:
  "CHECK_OK (KuduPartialRow_Set name t v row) =
     (if has_column (row_schema row) name t
      then Returns (row\<lparr>row_cells := cell_update name v (row_cells row)\<rparr>)
      else Crashes)"
  by (simp add: CHECK_OK_def KuduPartialRow_Set_def has_column_def ok_def split: option.splits)

lemma column_names_differ:
  "kSysCatalogTableColType \<noteq> kSysCatalogTableColId"
  "kSysCatalogTableColType \<noteq> kSysCatalogTableColMetadata"
  "kSysCatalogTableColId \<noteq> kSysCatalogTableColMetadata"
  by (simp_all add: kSysCatalogTableColType_def kSysCatalogTableColId_def
      kSysCatalogTableColMetadata_def)

lemma cell_update_three:
  assumes "cells = [] \<or> map fst cells = [k1, k2, k3]"
    and "k1 \<noteq> k2" and "k1 \<noteq> k3" and "k2 \<noteq> k3"
  shows "cell_update k3 c (cell_update k2 b (cell_update k1 a cells)) =
           [(k1, a), (k2, b), (k3, c)]"
proof (cases "cells = []")
  case True
  then show ?thesis using assms(2-4) by simp
next
  case False
  with assms(1) obtain x y z where "cells = [(k1, x), (k2, y), (k3, z)]"
    by (auto simp: map_eq_Cons_conv)
  then show ?thesis using assms(2-4) by simp
qed

lemma cell_update_two:
  assumes "cells = [] \<or> map fst cells = [k1, k2]" and "k1 \<noteq> k2"
  shows "cell_update k2 b (cell_update k1 a cells) = [(k1, a), (k2, b)]"
proof (cases "cells = []")
  case True
  then show ?thesis using assms(2) by simp
next
  case False
  with assms(1) obtain x y where "cells = [(k1, x), (k2, y)]"
    by (auto simp: map_eq_Cons_conv)
  then show ?thesis using assms(2) by simp
qed

lemma ReqAddTablets_loop_eq:
  assumes "row_cells row = [] \<or>
           map fst (row_cells row) =
             [kSysCatalogTableColType, kSysCatalogTableColId, kSysCatalogTableColMetadata]"
  shows "ReqAddTablets_loop env ts row ops =
           (if ts = [] \<or>
               (has_column (row_schema row) kSysCatalogTableColType INT8 \<and>
                has_column (row_schema row) kSysCatalogTableColId STRING \<and>
                has_column (row_schema row) kSysCatalogTableColMetadata STRING)
            then Returns (ops @ map (spec_tablet_op env INSERT) ts)
            else Crashes)"
  using assms
proof (induction ts arbitrary: row ops)
  case Nil
  then show ?case by simp
next
  case (Cons t ts)
  let ?cells = "[(kSysCatalogTableColType, Int8Cell TABLETS_ENTRY),
                 (kSysCatalogTableColId, StringCell (TabletInfo_tablet_id t)),
                 (kSysCatalogTableColMetadata,
                  StringCell (SerializeTablet env (TabletInfo_dirty_pb t)))]"
  have cells: "cell_update kSysCatalogTableColMetadata
                 (StringCell (SerializeTablet env (TabletInfo_dirty_pb t)))
                 (cell_update kSysCatalogTableColId (StringCell (TabletInfo_tablet_id t))
                    (cell_update kSysCatalogTableColType (Int8Cell TABLETS_ENTRY)
                       (row_cells row))) = ?cells"
    using Cons.prems column_names_differ by (intro cell_update_three) simp_all
  have next_row: "ReqAddTablets_loop env ts (row\<lparr>row_cells := ?cells\<rparr>)
                    (ops @ [spec_tablet_op env INSERT t]) =
                  (if ts = [] \<or>
                      (has_column (row_schema row) kSysCatalogTableColType INT8 \<and>
                       has_column (row_schema row) kSysCatalogTableColId STRING \<and>
                       has_column (row_schema row) kSysCatalogTableColMetadata STRING)
                   then Returns ((ops @ [spec_tablet_op env INSERT t]) @
                                 map (spec_tablet_op env INSERT) ts)
                   else Crashes)"
    using Cons.IH [of "row\<lparr>row_cells := ?cells\<rparr>" "ops @ [spec_tablet_op env INSERT t]"]
    by simp
  show ?case
    using cells next_row
    by (simp add: Let_def SetInt8_def SetStringNoCopy_def CHECK_OK_Set
        RowOperationsPBEncoder_Add_def spec_tablet_op_def)
qed

lemma ReqUpdateTablets_loop_eq:
  assumes "row_cells row = [] \<or>
           map fst (row_cells row) =
             [kSysCatalogTableColType, kSysCatalogTableColId, kSysCatalogTableColMetadata]"
  shows "ReqUpdateTablets_loop env ts row ops =
           (if ts = [] \<or>
               (has_column (row_schema row) kSysCatalogTableColType INT8 \<and>
                has_column (row_schema row) kSysCatalogTableColId STRING \<and>
                has_column (row_schema row) kSysCatalogTableColMetadata STRING)
            then Returns (ops @ map (spec_tablet_op env UPDATE) ts)
            else Crashes)"
  using assms
proof (induction ts arbitrary: row ops)
  case Nil
  then show ?case by simp
next
  case (Cons t ts)
  let ?cells = "[(kSysCatalogTableColType, Int8Cell TABLETS_ENTRY),
                 (kSysCatalogTableColId, StringCell (TabletInfo_tablet_id t)),
                 (kSysCatalogTableColMetadata,
                  StringCell (SerializeTablet env (TabletInfo_dirty_pb t)))]"
  have cells: "cell_update kSysCatalogTableColMetadata
                 (StringCell (SerializeTablet env (TabletInfo_dirty_pb t)))
                 (cell_update kSysCatalogTableColId (StringCell (TabletInfo_tablet_id t))
                    (cell_update kSysCatalogTableColType (Int8Cell TABLETS_ENTRY)
                       (row_cells row))) = ?cells"
    using Cons.prems column_names_differ by (intro cell_update_three) simp_all
  have next_row: "ReqUpdateTablets_loop env ts (row\<lparr>row_cells := ?cells\<rparr>)
                    (ops @ [spec_tablet_op env UPDATE t]) =
                  (if ts = [] \<or>
                      (has_column (row_schema row) kSysCatalogTableColType INT8 \<and>
                       has_column (row_schema row) kSysCatalogTableColId STRING \<and>
                       has_column (row_schema row) kSysCatalogTableColMetadata STRING)
                   then Returns ((ops @ [spec_tablet_op env UPDATE t]) @
                                 map (spec_tablet_op env UPDATE) ts)
                   else Crashes)"
    using Cons.IH [of "row\<lparr>row_cells := ?cells\<rparr>" "ops @ [spec_tablet_op env UPDATE t]"]
    by simp
  show ?case
    using cells next_row
    by (simp add: Let_def SetInt8_def SetStringNoCopy_def CHECK_OK_Set
        RowOperationsPBEncoder_Add_def spec_tablet_op_def)
qed

lemma ReqDeleteTablets_loop_eq:
  assumes "row_cells row = [] \<or>
           map fst (row_cells row) = [kSysCatalogTableColType, kSysCatalogTableColId]"
  shows "ReqDeleteTablets_loop ts row ops =
           (if ts = [] \<or>
               (has_column (row_schema row) kSysCatalogTableColType INT8 \<and>
                has_column (row_schema row) kSysCatalogTableColId STRING)
            then Returns (ops @ map (spec_tablet_op env DELETE) ts)
            else Crashes)"
  using assms
proof (induction ts arbitrary: row ops)
  case Nil
  then show ?case by simp
next
  case (Cons t ts)
  let ?cells = "[(kSysCatalogTableColType, Int8Cell TABLETS_ENTRY),
                 (kSysCatalogTableColId, StringCell (TabletInfo_tablet_id t))]"
  have cells: "cell_update kSysCatalogTableColId (StringCell (TabletInfo_tablet_id t))
                 (cell_update kSysCatalogTableColType (Int8Cell TABLETS_ENTRY)
                    (row_cells row)) = ?cells"
    using Cons.prems column_names_differ by (intro cell_update_two) simp_all
  have next_row: "ReqDeleteTablets_loop ts (row\<lparr>row_cells := ?cells\<rparr>)
                    (ops @ [spec_tablet_op env DELETE t]) =
                  (if ts = [] \<or>
                      (has_column (row_schema row) kSysCatalogTableColType INT8 \<and>
                       has_column (row_schema row) kSysCatalogTableColId STRING)
                   then Returns ((ops @ [spec_tablet_op env DELETE t]) @
                                 map (spec_tablet_op env DELETE) ts)
                   else Crashes)"
    using Cons.IH [of "row\<lparr>row_cells := ?cells\<rparr>" "ops @ [spec_tablet_op env DELETE t]"]
    by simp
  show ?case
    using cells next_row
    by (simp add: Let_def SetInt8_def SetStringNoCopy_def CHECK_OK_Set
        RowOperationsPBEncoder_Add_def spec_tablet_op_def)
qed

text \<open>
  Each step of \<^verbatim>\<open>Write\<close> that adds row operations either aborts or appends the operations
  the specification lists for it.
\<close>

lemma table_to_add_step:
  "(case opt of Some table \<Rightarrow> ReqAddTable env st req table | None \<Rightarrow> Returns req) =
     (if opt = None \<or>
         (has_column (schema st) kSysCatalogTableColType INT8 \<and>
          has_column (schema st) kSysCatalogTableColId STRING \<and>
          has_column (schema st) kSysCatalogTableColMetadata STRING)
      then Returns (req\<lparr>row_operations := row_operations req @
                      map (spec_table_op env INSERT) (case opt of None \<Rightarrow> [] | Some t \<Rightarrow> [t])\<rparr>)
      else Crashes)"
  using column_names_differ
  by (cases opt)
     (simp_all add: ReqAddTable_def Let_def SetInt8_def SetStringNoCopy_def CHECK_OK_Set
        KuduPartialRow_new_def RowOperationsPBEncoder_Add_def spec_table_op_def)

lemma table_to_update_step:
  "(case opt of Some table \<Rightarrow> ReqUpdateTable env st req table | None \<Rightarrow> Returns req) =
     (if opt = None \<or>
         (has_column (schema st) kSysCatalogTableColType INT8 \<and>
          has_column (schema st) kSysCatalogTableColId STRING \<and>
          has_column (schema st) kSysCatalogTableColMetadata STRING)
      then Returns (req\<lparr>row_operations := row_operations req @
                      map (spec_table_op env UPDATE) (case opt of None \<Rightarrow> [] | Some t \<Rightarrow> [t])\<rparr>)
      else Crashes)"
  using column_names_differ
  by (cases opt)
     (simp_all add: ReqUpdateTable_def Let_def SetInt8_def SetStringNoCopy_def CHECK_OK_Set
        KuduPartialRow_new_def RowOperationsPBEncoder_Add_def spec_table_op_def)

lemma table_to_delete_step:
  "(case opt of Some table \<Rightarrow> ReqDeleteTable st req table | None \<Rightarrow> Returns req) =
     (if opt = None \<or>
         (has_column (schema st) kSysCatalogTableColType INT8 \<and>
          has_column (schema st) kSysCatalogTableColId STRING)
      then Returns (req\<lparr>row_operations := row_operations req @
                      map (spec_table_op env DELETE) (case opt of None \<Rightarrow> [] | Some t \<Rightarrow> [t])\<rparr>)
      else Crashes)"
  using column_names_differ
  by (cases opt)
     (simp_all add: ReqDeleteTable_def Let_def SetInt8_def SetStringNoCopy_def CHECK_OK_Set
        KuduPartialRow_new_def RowOperationsPBEncoder_Add_def spec_table_op_def)

lemma ReqAddTablets_step:
  "ReqAddTablets env st req ts =
     (if ts = [] \<or>
         (has_column (schema st) kSysCatalogTableColType INT8 \<and>
          has_column (schema st) kSysCatalogTableColId STRING \<and>
          has_column (schema st) kSysCatalogTableColMetadata STRING)
      then Returns (req\<lparr>row_operations := row_operations req @
                      map (spec_tablet_op env INSERT) ts\<rparr>)
      else Crashes)"
  by (simp add: ReqAddTablets_def ReqAddTablets_loop_eq KuduPartialRow_new_def)

lemma ReqUpdateTablets_step:
  "ReqUpdateTablets env st req ts =
     (if ts = [] \<or>
         (has_column (schema st) kSysCatalogTableColType INT8 \<and>
          has_column (schema st) kSysCatalogTableColId STRING \<and>
          has_column (schema st) kSysCatalogTableColMetadata STRING)
      then Returns (req\<lparr>row_operations := row_operations req @
                      map (spec_tablet_op env UPDATE) ts\<rparr>)
      else Crashes)"
  by (simp add: ReqUpdateTablets_def ReqUpdateTablets_loop_eq KuduPartialRow_new_def)

lemma ReqDeleteTablets_step:
  "ReqDeleteTablets st req ts =
     (if ts = [] \<or>
         (has_column (schema st) kSysCatalogTableColType INT8 \<and>
          has_column (schema st) kSysCatalogTableColId STRING)
      then Returns (req\<lparr>row_operations := row_operations req @
                      map (spec_tablet_op env DELETE) ts\<rparr>)
      else Crashes)"
  by (simp add: ReqDeleteTablets_def ReqDeleteTablets_loop_eq [where env = env]
      KuduPartialRow_new_def)

lemma outcome_bind_if:
  "outcome_bind (if c then Returns x else Crashes) f = (if c then f x else Crashes)"
  by simp

lemma Write_request:
  "Write env draw actions st =
     (case SchemaToPB env (schema st) of
        (s, schema_pb) \<Rightarrow>
          if \<not> ok s then Returns (s, st)
          else if \<not> setters_succeed (schema st) actions then Crashes
          else
            (case SyncWrite env draw
                    \<lparr>req_tablet_id = Some kSysCatalogTabletId, req_schema = Some schema_pb,
                     row_operations = spec_row_operations env actions\<rparr>
                    WriteResponsePB_new st of
               Returns (s, resp', st') \<Rightarrow> Returns (s, st')
             | Crashes \<Rightarrow> Crashes
             | Blocks \<Rightarrow> Blocks))"
proof -
  obtain s schema_pb where pb: "SchemaToPB env (schema st) = (s, schema_pb)"
    by (cases "SchemaToPB env (schema st)")
  let ?K = "has_column (schema st) kSysCatalogTableColType INT8 \<and>
            has_column (schema st) kSysCatalogTableColId STRING"
  let ?M = "has_column (schema st) kSysCatalogTableColMetadata STRING"
  define c1 where "c1 \<longleftrightarrow> table_to_add actions = None \<or> (?K \<and> ?M)"
  define c2 where "c2 \<longleftrightarrow> table_to_update actions = None \<or> (?K \<and> ?M)"
  define c3 where "c3 \<longleftrightarrow> table_to_delete actions = None \<or> ?K"
  define c4 where "c4 \<longleftrightarrow> tablets_to_add actions = [] \<or> (?K \<and> ?M)"
  define c5 where "c5 \<longleftrightarrow> tablets_to_update actions = [] \<or> (?K \<and> ?M)"
  define c6 where "c6 \<longleftrightarrow> tablets_to_delete actions = [] \<or> ?K"
  have succeed: "setters_succeed (schema st) actions \<longleftrightarrow> c1 \<and> c2 \<and> c3 \<and> c4 \<and> c5 \<and> c6"
    unfolding c1_def c2_def c3_def c4_def c5_def c6_def
    by (auto simp: setters_succeed_def sets_key_columns_def sets_metadata_column_def)
  have step1: "(case table_to_add actions of
                  Some table \<Rightarrow> ReqAddTable env st req table | None \<Rightarrow> Returns req) =
               (if c1 then Returns (req\<lparr>row_operations := row_operations req @
                      map (spec_table_op env INSERT)
                        (case table_to_add actions of None \<Rightarrow> [] | Some t \<Rightarrow> [t])\<rparr>)
                else Crashes)" for req
    unfolding c1_def by (simp only: table_to_add_step conj_assoc)
  have step2: "(case table_to_update actions of
                  Some table \<Rightarrow> ReqUpdateTable env st req table | None \<Rightarrow> Returns req) =
               (if c2 then Returns (req\<lparr>row_operations := row_operations req @
                      map (spec_table_op env UPDATE)
                        (case table_to_update actions of None \<Rightarrow> [] | Some t \<Rightarrow> [t])\<rparr>)
                else Crashes)" for req
    unfolding c2_def by (simp only: table_to_update_step conj_assoc)
  have step3: "(case table_to_delete actions of
                  Some table \<Rightarrow> ReqDeleteTable st req table | None \<Rightarrow> Returns req) =
               (if c3 then Returns (req\<lparr>row_operations := row_operations req @
                      map (spec_table_op env DELETE)
                        (case table_to_delete actions of None \<Rightarrow> [] | Some t \<Rightarrow> [t])\<rparr>)
                else Crashes)" for req
    unfolding c3_def by (simp only: table_to_delete_step [where env = env])
  have step4: "ReqAddTablets env st req (tablets_to_add actions) =
               (if c4 then Returns (req\<lparr>row_operations := row_operations req @
                      map (spec_tablet_op env INSERT) (tablets_to_add actions)\<rparr>)
                else Crashes)" for req
    unfolding c4_def by (simp only: ReqAddTablets_step conj_assoc)
  have step5: "ReqUpdateTablets env st req (tablets_to_update actions) =
               (if c5 then Returns (req\<lparr>row_operations := row_operations req @
                      map (spec_tablet_op env UPDATE) (tablets_to_update actions)\<rparr>)
                else Crashes)" for req
    unfolding c5_def by (simp only: ReqUpdateTablets_step conj_assoc)
  have step6: "ReqDeleteTablets st req (tablets_to_delete actions) =
               (if c6 then Returns (req\<lparr>row_operations := row_operations req @
                      map (spec_tablet_op env DELETE) (tablets_to_delete actions)\<rparr>)
                else Crashes)" for req
    unfolding c6_def by (simp only: ReqDeleteTablets_step [where env = env])
  show ?thesis
    using pb
    by (simp add: Write_def Let_def ok_def succeed step1 step2 step3 step4 step5 step6
        outcome_bind_if WriteRequestPB_new_def spec_row_operations_def
        split: outcome.splits)
qed

text \<open>
  C1. \<^verbatim>\<open>Write\<close> returns the failure of the schema conversion, or aborts at a
  \<^verbatim>\<open>CHECK_OK\<close> because the schema of the object lacks a column that the actions set, or
  hands to \<^verbatim>\<open>SyncWrite\<close> one request: addressed to the catalog tablet, carrying the
  converted schema, and with the row operations in exactly the order of the specification
  (table add, table update, table delete, tablet adds, tablet updates, tablet deletes; each
  tablet group in the order of its input vector). No other request is built.
\<close>

theorem Write_row_operations_in_order:
  "Write env draw actions st =
     (case SchemaToPB env (schema st) of
        (s, schema_pb) \<Rightarrow>
          if \<not> ok s then Returns (s, st)
          else if \<not> setters_succeed (schema st) actions then Crashes
          else
            (case SyncWrite env draw
                    \<lparr>req_tablet_id = Some kSysCatalogTabletId, req_schema = Some schema_pb,
                     row_operations = spec_row_operations env actions\<rparr>
                    WriteResponsePB_new st of
               Returns (s, resp', st') \<Rightarrow> Returns (s, st')
             | Crashes \<Rightarrow> Crashes
             | Blocks \<Rightarrow> Blocks))"
  by (rule Write_request)

text \<open>
  The theorem on the example catalog, whose schema is the canonical one: the tablet peer
  receives one request with the six row operations in order. On an object whose schema was
  never set (the state the constructor leaves) the same actions abort.
\<close>

theorem Write_row_operations_in_order_witness:
  "Write (example_write_env 0) 0 example_actions example_catalog =
     Returns (OK, example_catalog\<lparr>tablet_peer := Some
       [\<lparr>req_tablet_id = Some ''00000000000000000000000000000000'',
         req_schema = Some (SchemaPB BuildTableSchema),
         row_operations =
           [(INSERT, [(''entry_type'', Int8Cell TABLES_ENTRY), (''entry_id'', StringCell ''T1''),
                      (''metadata'', StringCell ''users'')]),
            (DELETE, [(''entry_type'', Int8Cell TABLES_ENTRY), (''entry_id'', StringCell ''T1'')]),
            (INSERT, [(''entry_type'', Int8Cell TABLETS_ENTRY), (''entry_id'', StringCell ''S1''),
                      (''metadata'', StringCell ''T1'')]),
            (INSERT, [(''entry_type'', Int8Cell TABLETS_ENTRY), (''entry_id'', StringCell ''S2''),
                      (''metadata'', StringCell ''T1'')]),
            (UPDATE, [(''entry_type'', Int8Cell TABLETS_ENTRY), (''entry_id'', StringCell ''S3''),
                      (''metadata'', StringCell ''T1'')]),
            (DELETE, [(''entry_type'', Int8Cell TABLETS_ENTRY),
                      (''entry_id'', StringCell ''S4'')])]\<rparr>]\<rparr>) \<and>
   Write (example_write_env 0) 0 example_actions
     (example_catalog\<lparr>schema := \<lparr>schema_cols = [], num_key_columns = 0\<rparr>\<rparr>) = Crashes"
  using Write_row_operations_in_order
    [of "example_write_env 0" 0 example_actions example_catalog]
    Write_row_operations_in_order
    [of "example_write_env 0" 0 example_actions
        "example_catalog\<lparr>schema := \<lparr>schema_cols = [], num_key_columns = 0\<rparr>\<rparr>"]
  by (simp add: example_write_env_def example_catalog_def example_actions_def
      example_table_def example_tablet_def spec_row_operations_def spec_table_op_def
      spec_tablet_op_def SyncWrite_def MAYBE_RETURN_FAILURE_def logging_SubmitWrite_def
      WriteResponsePB_new_def kSysCatalogTabletId_def ok_def
      setters_succeed_def sets_key_columns_def sets_metadata_column_def has_column_def
      BuildTableSchema_def kSysCatalogTableColType_def kSysCatalogTableColId_def
      kSysCatalogTableColMetadata_def)

text \<open>
  C4. When \<^verbatim>\<open>SyncWrite\<close> receives a response (no fault is injected, the tablet peer
  accepts the submission and the transaction completes with response \<open>resp'\<close>): an
  error in the response gives the status converted from it, whatever the per-row errors;
  otherwise one or more per-row errors give the corruption status "One or more rows failed
  to write"; otherwise the status is OK.
\<close>

theorem SyncWrite_status_of_response:
  assumes "\<not> MAYBE_RETURN_FAILURE (sys_catalog_fail_during_write env) draw"
    and "tablet_peer st = Some peer"
    and "SubmitWrite env peer req resp = (OK, Some resp', peer')"
  shows "SyncWrite env draw req resp st =
           Returns
             (case resp_error resp' of
                Some e \<Rightarrow> StatusFromPB env (error_status e)
              | None \<Rightarrow>
                  if per_row_errors resp' \<noteq> []
                  then NotOK kCorruption ''One or more rows failed to write''
                  else OK,
              resp', st\<lparr>tablet_peer := Some peer'\<rparr>)"
  using assms
  by (simp add: SyncWrite_def ok_def Status_Corruption_def Status2_def split: option.splits)

theorem SyncWrite_status_of_response_witness:
  "SyncWrite ((example_write_env 0)\<lparr>SubmitWrite := failing_SubmitWrite\<rparr>) 0
     WriteRequestPB_new WriteResponsePB_new example_catalog
   = Returns (NotOK kRemoteError ''empty'',
        \<lparr>resp_error =
            Some \<lparr>error_code = 1,
                  error_status = \<lparr>app_status_code = 7, app_status_message = ''empty''\<rparr>\<rparr>,
          per_row_errors =
            [\<lparr>row_index = 0,
              row_error = \<lparr>app_status_code = 5, app_status_message = ''key exists''\<rparr>\<rparr>]\<rparr>,
        example_catalog\<lparr>tablet_peer := Some [WriteRequestPB_new]\<rparr>) \<and>
   fst (case SyncWrite ((example_write_env 0)\<lparr>SubmitWrite := failing_SubmitWrite\<rparr>) 0
       (WriteRequestPB_new\<lparr>row_operations := [(DELETE, [])]\<rparr>)
       WriteResponsePB_new example_catalog of Returns r \<Rightarrow> r)
   = NotOK kCorruption ''One or more rows failed to write'' \<and>
   fst (case SyncWrite (example_write_env 0) 0 WriteRequestPB_new WriteResponsePB_new
          example_catalog of Returns r \<Rightarrow> r)
   = OK"
  using
    SyncWrite_status_of_response
      [of "(example_write_env 0)\<lparr>SubmitWrite := failing_SubmitWrite\<rparr>" 0 example_catalog
          "[]" WriteRequestPB_new WriteResponsePB_new _ "[WriteRequestPB_new]"]
    SyncWrite_status_of_response
      [of "(example_write_env 0)\<lparr>SubmitWrite := failing_SubmitWrite\<rparr>" 0 example_catalog
          "[]" "WriteRequestPB_new\<lparr>row_operations := [(DELETE, [])]\<rparr>"
          WriteResponsePB_new]
    SyncWrite_status_of_response
      [of "example_write_env 0" 0 example_catalog "[]" WriteRequestPB_new WriteResponsePB_new]
  by (simp add: example_write_env_def example_catalog_def failing_SubmitWrite_def
      logging_SubmitWrite_def MAYBE_RETURN_FAILURE_def WriteRequestPB_new_def
      WriteResponsePB_new_def)

text \<open>
  C5. With the fault fraction at 1, every call of \<^verbatim>\<open>SyncWrite\<close> returns the runtime
  error "INJECTED FAILURE" (the draw of the random generator is below 1 at every call), and
  the object, its tablet peer included, and the response are as before the call: nothing
  has been submitted. This holds even when no tablet peer is set up, the fault hook coming
  first.
\<close>

theorem SyncWrite_injected_failure:
  assumes "sys_catalog_fail_during_write env = 1" and "draw < 1"
  shows "SyncWrite env draw req resp st =
           Returns (NotOK kRuntimeError ''INJECTED FAILURE'', resp, st)"
  using assms
  by (simp add: SyncWrite_def MAYBE_RETURN_FAILURE_def Status_RuntimeError_def Status2_def
      kInjectedFailureStatusMsg_def)

theorem SyncWrite_injected_failure_witness:
  "SyncWrite (example_write_env 1) (1 / 2)
     (WriteRequestPB_new\<lparr>row_operations := [(DELETE, [])]\<rparr>)
     WriteResponsePB_new example_catalog
   = Returns (NotOK kRuntimeError ''INJECTED FAILURE'', WriteResponsePB_new, example_catalog) \<and>
   tablet_peer example_catalog = Some []"
  using SyncWrite_injected_failure
    [of "example_write_env 1" "1 / 2"
        "WriteRequestPB_new\<lparr>row_operations := [(DELETE, [])]\<rparr>"
        WriteResponsePB_new example_catalog]
  by (simp add: example_write_env_def example_catalog_def)

text \<open>
  C8, as the code has it. With every field of the actions empty, no setter is called, the
  request has no row operation and is handed to \<^verbatim>\<open>SyncWrite\<close> all the same. When no
  fault is injected, a tablet peer is set up, it accepts the submission of this request and
  the response it completes with has no error and no per-row error, \<^verbatim>\<open>Write\<close> returns
  OK, the tablet peer being the one the submission left.
\<close>

theorem Write_all_fields_empty:
  assumes "SchemaToPB env (schema st) = (OK, schema_pb)"
  shows "Write env draw Actions_new st =
           (case SyncWrite env draw
                   \<lparr>req_tablet_id = Some kSysCatalogTabletId, req_schema = Some schema_pb,
                    row_operations = []\<rparr>
                   WriteResponsePB_new st of
              Returns (s, resp', st') \<Rightarrow> Returns (s, st')
            | Crashes \<Rightarrow> Crashes
            | Blocks \<Rightarrow> Blocks) \<and>
         (\<not> MAYBE_RETURN_FAILURE (sys_catalog_fail_during_write env) draw \<and>
          tablet_peer st = Some peer \<and>
          SubmitWrite env peer
            \<lparr>req_tablet_id = Some kSysCatalogTabletId, req_schema = Some schema_pb,
             row_operations = []\<rparr> WriteResponsePB_new = (OK, Some resp', peer') \<and>
          resp_error resp' = None \<and> per_row_errors resp' = []
          \<longrightarrow> Write env draw Actions_new st = Returns (OK, st\<lparr>tablet_peer := Some peer'\<rparr>))"
proof -
  have empty: "spec_row_operations env Actions_new = []"
    by (simp add: spec_row_operations_def Actions_new_def)
  have settable: "setters_succeed (schema st) Actions_new"
    by (simp add: setters_succeed_def sets_key_columns_def sets_metadata_column_def
        Actions_new_def)
  show ?thesis
    using assms
    by (simp add: Write_request [of env draw Actions_new st] empty settable ok_def
        SyncWrite_def)
qed

theorem Write_all_fields_empty_witness:
  "Write (example_write_env 0) 0 Actions_new example_catalog =
     Returns (OK, example_catalog\<lparr>tablet_peer := Some
       [\<lparr>req_tablet_id = Some ''00000000000000000000000000000000'',
         req_schema = Some (SchemaPB BuildTableSchema), row_operations = []\<rparr>]\<rparr>)"
  using Write_all_fields_empty
    [of "example_write_env 0" example_catalog "SchemaPB BuildTableSchema" 0 "[]"
        WriteResponsePB_new
        "[\<lparr>req_tablet_id = Some kSysCatalogTabletId,
           req_schema = Some (SchemaPB BuildTableSchema), row_operations = []\<rparr>]"]
  by (simp add: example_write_env_def example_catalog_def MAYBE_RETURN_FAILURE_def
      logging_SubmitWrite_def WriteResponsePB_new_def kSysCatalogTabletId_def SyncWrite_def
      ok_def)

text \<open>
  C8 as stated fails: no fault is injected and the response carries no error, yet a tablet
  peer that rejects the submission (it is not the leader) makes \<^verbatim>\<open>Write\<close> of the empty
  actions return the rejection, not OK.
\<close>

theorem Write_rejected_submission_counterexample:
  "\<not> MAYBE_RETURN_FAILURE
       (sys_catalog_fail_during_write
          ((example_write_env 0)\<lparr>SubmitWrite := rejecting_SubmitWrite\<rparr>)) 0 \<and>
   rejecting_SubmitWrite []
     \<lparr>req_tablet_id = Some kSysCatalogTabletId,
      req_schema = Some (SchemaPB BuildTableSchema), row_operations = []\<rparr>
     WriteResponsePB_new = (NotOK kIllegalState ''not leader'', None, []) \<and>
   Write ((example_write_env 0)\<lparr>SubmitWrite := rejecting_SubmitWrite\<rparr>) 0 Actions_new
     example_catalog
   = Returns (NotOK kIllegalState ''not leader'', example_catalog)"
  by (simp add: Write_request spec_row_operations_def Actions_new_def setters_succeed_def
      sets_key_columns_def sets_metadata_column_def example_write_env_def
      example_catalog_def rejecting_SubmitWrite_def MAYBE_RETURN_FAILURE_def SyncWrite_def
      ok_def)

subsection \<open>Sets of strings\<close>

lemma std_set_insert_set [simp]: "set (std_set_insert x xs) = insert x (set xs)"
  by (auto simp: std_set_insert_def set_insort_key)

lemma std_set_insert_sorted: "sorted xs \<Longrightarrow> sorted (std_set_insert x xs)"
  by (simp add: std_set_insert_def sorted_insort)

lemma std_set_insert_distinct: "distinct xs \<Longrightarrow> distinct (std_set_insert x xs)"
  by (simp add: std_set_insert_def distinct_insort)

lemma set_symmetric_difference_set:
  "sorted xs \<Longrightarrow> distinct xs \<Longrightarrow> sorted ys \<Longrightarrow> distinct ys \<Longrightarrow>
   set (set_symmetric_difference xs ys) = (set xs - set ys) \<union> (set ys - set xs)"
proof (induction xs ys rule: set_symmetric_difference.induct)
  case (1 ys)
  then show ?case by simp
next
  case (2 x xs)
  then show ?case by simp
next
  case (3 x xs y ys)
  show ?case
  proof (cases "x < y")
    case True
    then have "x \<notin> set (y # ys)"
      using "3.prems"(3) by auto
    moreover have "set (set_symmetric_difference xs (y # ys))
        = (set xs - set (y # ys)) \<union> (set (y # ys) - set xs)"
      using "3.IH"(1) [OF True] "3.prems" by simp
    ultimately show ?thesis
      using True "3.prems"(2) by auto
  next
    case False
    show ?thesis
    proof (cases "y < x")
      case True
      then have "y \<notin> set (x # xs)"
        using "3.prems"(1) by auto
      moreover have "set (set_symmetric_difference (x # xs) ys)
          = (set (x # xs) - set ys) \<union> (set ys - set (x # xs))"
        using "3.IH"(2) [OF False True] "3.prems" by simp
      ultimately show ?thesis
        using False True "3.prems"(4) by auto
    next
      case nlt: False
      with False have eq: "x = y" by simp
      have "set (set_symmetric_difference xs ys) = (set xs - set ys) \<union> (set ys - set xs)"
        using "3.IH"(3) [OF False nlt] "3.prems" by simp
      then show ?thesis
        using eq "3.prems"(2,4) by auto
    qed
  qed
qed

lemma JoinStrings_sublist: "a \<in> set xs \<Longrightarrow> sublist a (JoinStrings xs delim)"
proof (induction xs delim rule: JoinStrings.induct)
  case (1 delim)
  then show ?case by simp
next
  case (2 x delim)
  then show ?case by simp
next
  case (3 x y ys delim)
  show ?case
  proof (cases "a = x")
    case True
    have "JoinStrings (x # y # ys) delim = [] @ a @ (delim @ JoinStrings (y # ys) delim)"
      using True by simp
    then show ?thesis
      unfolding sublist_def by blast
  next
    case False
    then have "sublist a (JoinStrings (y # ys) delim)"
      using 3 by simp
    then obtain ps ss where "JoinStrings (y # ys) delim = ps @ a @ ss"
      unfolding sublist_def by blast
    then have "JoinStrings (x # y # ys) delim = (x @ delim @ ps) @ a @ ss"
      by simp
    then show ?thesis
      unfolding sublist_def by blast
  qed
qed

subsection \<open>Load\<close>

lemma peer_addrs_from_opts_loop_inv:
  "sorted acc \<Longrightarrow> distinct acc \<Longrightarrow>
   sorted (peer_addrs_from_opts_loop env hps acc) \<and>
   distinct (peer_addrs_from_opts_loop env hps acc) \<and>
   set (peer_addrs_from_opts_loop env hps acc) = set acc \<union> HostPort_ToString env ` set hps"
  by (induction hps arbitrary: acc)
     (auto simp: std_set_insert_sorted std_set_insert_distinct)

lemma peer_addrs_from_disk_loop_ok:
  "sorted acc \<Longrightarrow> distinct acc \<Longrightarrow>
   \<forall>p\<in>set ps. ok (fst (HostPortFromPB env (get_last_known_addr p))) \<Longrightarrow>
   \<exists>res. peer_addrs_from_disk_loop env ps acc = (OK, res) \<and> sorted res \<and> distinct res \<and>
     set res = set acc \<union>
       (\<lambda>p. HostPort_ToString env (snd (HostPortFromPB env (get_last_known_addr p)))) ` set ps"
proof (induction ps arbitrary: acc)
  case Nil
  then show ?case by simp
next
  case (Cons p ps)
  obtain s hp where conv: "HostPortFromPB env (get_last_known_addr p) = (s, hp)"
    by (cases "HostPortFromPB env (get_last_known_addr p)")
  with Cons.prems(3) have s: "ok s" by simp
  have "\<exists>res. peer_addrs_from_disk_loop env ps (std_set_insert (HostPort_ToString env hp) acc)
            = (OK, res) \<and> sorted res \<and> distinct res \<and>
          set res = set (std_set_insert (HostPort_ToString env hp) acc) \<union>
            (\<lambda>p. HostPort_ToString env (snd (HostPortFromPB env (get_last_known_addr p)))) ` set ps"
    using Cons.prems
    by (intro Cons.IH) (simp_all add: std_set_insert_sorted std_set_insert_distinct)
  then show ?case
    using conv s by auto
qed

lemma peer_addrs_from_disk_loop_fails:
  "\<not> (\<forall>p\<in>set ps. ok (fst (HostPortFromPB env (get_last_known_addr p)))) \<Longrightarrow>
   \<not> ok (fst (peer_addrs_from_disk_loop env ps acc))"
  by (induction ps arbitrary: acc) (auto simp: Let_def split: prod.splits)

lemma Load_verify_consensus_compare:
  assumes cm: "ConsensusMetadata_Load env fs_manager (tm_tablet_id md) (fs_uuid fs_manager)
                 = (s2, cmeta)"
    and s2: "ok s2"
    and ver: "ok (VerifyConsensusState env (ToConsensusStatePB_COMMITTED cmeta) COMMITTED_QUORUM)"
    and conv: "disk_addrs_convert env cmeta"
  shows "\<exists>symm_diff.
           set symm_diff =
             (spec_addrs_from_opts env - spec_addrs_from_disk env cmeta) \<union>
             (spec_addrs_from_disk env cmeta - spec_addrs_from_opts env) \<and>
           Load_verify_consensus env fs_manager md =
             (if symm_diff \<noteq> []
              then NotOK kInvalidArgument
                     (''on-disk and provided master lists are different: '' @
                      JoinStrings symm_diff '' '')
              else OK)"
proof -
  let ?opts = "peer_addrs_from_opts_loop env (master_addresses (opts env)) []"
  have o: "sorted ?opts" "distinct ?opts" "set ?opts = spec_addrs_from_opts env"
    using peer_addrs_from_opts_loop_inv [of "[]" env "master_addresses (opts env)"]
    by (simp_all add: spec_addrs_from_opts_def)
  obtain disk where d: "peer_addrs_from_disk_loop env (peers (cmeta_committed_config cmeta)) []
                          = (OK, disk)"
      "sorted disk" "distinct disk" "set disk = spec_addrs_from_disk env cmeta"
    using peer_addrs_from_disk_loop_ok [of "[]" "peers (cmeta_committed_config cmeta)" env] conv
    by (auto simp: spec_addrs_from_disk_def disk_addrs_convert_def)
  have sd: "set (set_symmetric_difference ?opts disk) =
              (spec_addrs_from_opts env - spec_addrs_from_disk env cmeta) \<union>
              (spec_addrs_from_disk env cmeta - spec_addrs_from_opts env)"
    using set_symmetric_difference_set [OF o(1,2) d(2,3)] o(3) d(4) by simp
  have "Load_verify_consensus env fs_manager md =
          (if set_symmetric_difference ?opts disk \<noteq> []
           then NotOK kInvalidArgument
                  (''on-disk and provided master lists are different: '' @
                   JoinStrings (set_symmetric_difference ?opts disk) '' '')
           else OK)"
    using cm s2 ver d(1)
    by (simp add: Load_verify_consensus_def Let_def ToConsensusStatePB_COMMITTED_def
        Status_InvalidArgument_def Status2_def ok_def)
  with sd show ?thesis by blast
qed

lemma Load_verify_consensus_ok_iff:
  assumes cm: "ConsensusMetadata_Load env fs_manager (tm_tablet_id md) (fs_uuid fs_manager)
                 = (s2, cmeta)"
  shows "ok (Load_verify_consensus env fs_manager md) \<longleftrightarrow>
           ok s2 \<and>
           ok (VerifyConsensusState env (ToConsensusStatePB_COMMITTED cmeta) COMMITTED_QUORUM) \<and>
           disk_addrs_convert env cmeta \<and>
           spec_addrs_from_disk env cmeta = spec_addrs_from_opts env"
proof (cases "ok s2 \<and>
           ok (VerifyConsensusState env (ToConsensusStatePB_COMMITTED cmeta) COMMITTED_QUORUM) \<and>
           disk_addrs_convert env cmeta")
  case True
  then obtain symm_diff where
    sd: "set symm_diff =
             (spec_addrs_from_opts env - spec_addrs_from_disk env cmeta) \<union>
             (spec_addrs_from_disk env cmeta - spec_addrs_from_opts env)"
    and res: "Load_verify_consensus env fs_manager md =
             (if symm_diff \<noteq> []
              then NotOK kInvalidArgument
                     (''on-disk and provided master lists are different: '' @
                      JoinStrings symm_diff '' '')
              else OK)"
    using Load_verify_consensus_compare [OF cm] by blast
  have "symm_diff = [] \<longleftrightarrow> spec_addrs_from_disk env cmeta = spec_addrs_from_opts env"
  proof -
    have "symm_diff = [] \<longleftrightarrow> set symm_diff = {}" by simp
    also have "\<dots> \<longleftrightarrow> spec_addrs_from_disk env cmeta = spec_addrs_from_opts env"
      unfolding sd by blast
    finally show ?thesis .
  qed
  then show ?thesis
    using True res by (simp add: ok_def)
next
  case False
  have "\<not> ok (Load_verify_consensus env fs_manager md)"
  proof (cases "ok s2")
    case s2: False
    then show ?thesis
      using cm CloneAndPrepend_not_ok by (simp add: Load_verify_consensus_def Let_def)
  next
    case s2: True
    show ?thesis
    proof (cases "ok (VerifyConsensusState env (ToConsensusStatePB_COMMITTED cmeta)
                        COMMITTED_QUORUM)")
      case v: False
      then show ?thesis
        using cm s2 by (simp add: Load_verify_consensus_def Let_def)
    next
      case v: True
      with False s2 have "\<not> disk_addrs_convert env cmeta" by simp
      then have "\<not> ok (fst (peer_addrs_from_disk_loop env
                              (peers (cmeta_committed_config cmeta)) []))"
        using peer_addrs_from_disk_loop_fails [of "peers (cmeta_committed_config cmeta)" env "[]"]
        by (simp add: disk_addrs_convert_def)
      moreover obtain s3 disk where
        "peer_addrs_from_disk_loop env (peers (cmeta_committed_config cmeta)) [] = (s3, disk)"
        by (cases "peer_addrs_from_disk_loop env (peers (cmeta_committed_config cmeta)) []")
      ultimately show ?thesis
        using cm s2 v
        by (simp add: Load_verify_consensus_def Let_def ToConsensusStatePB_COMMITTED_def)
    qed
  qed
  with False show ?thesis by blast
qed

lemma Load_steps:
  assumes md: "TabletMetadata_Load env fs_manager kSysCatalogTabletId = (s1, md)"
  shows "Load env tenv fs_manager st =
           (if \<not> ok s1 then Returns (s1, st)
            else if \<not> Schema_Equals (tm_schema md) BuildTableSchema
            then Returns (NotOK kCorruption
                            (if Schema_ToString env (tm_schema md) = [] then ''Unexpected schema''
                             else ''Unexpected schema'' @ '': '' @
                                  Schema_ToString env (tm_schema md)), st)
            else if IsDistributed (opts env) \<and> \<not> ok (Load_verify_consensus env fs_manager md)
            then Returns (Load_verify_consensus env fs_manager md, st)
            else
              (case SetupTablet env tenv md st of
                 Returns (s, st') \<Rightarrow> Returns (s, st')
               | Crashes \<Rightarrow> Crashes
               | Blocks \<Rightarrow> Blocks))"
  using md
  by (simp add: Load_def Let_def Status2_def ok_def split: outcome.splits)

lemma string_of_nat_7051: "string_of_nat 7051 = ''7051''"
  by (simp add: string_of_nat.simps)

lemma example_ToString_7051 [simp]: "example_ToString (master_at h) = h @ '':7051''"
  by (simp add: example_ToString_def master_at_def string_of_nat_7051)

text \<open>
  C2, as the code has it. \<^verbatim>\<open>Load\<close> returns OK exactly when every step does: the tablet
  metadata loads, the persisted schema equals the canonical one, in distributed mode the
  consensus metadata loads, the committed consensus state passes verification, every
  persisted peer address converts and the persisted address set equals the configured one,
  and \<^verbatim>\<open>SetupTablet\<close> returns OK. The two conditions of the claim are necessary, not
  sufficient.
\<close>

theorem Load_OK_iff:
  assumes md: "TabletMetadata_Load env fs_manager kSysCatalogTabletId = (s1, md)"
    and cm: "ConsensusMetadata_Load env fs_manager (tm_tablet_id md) (fs_uuid fs_manager)
               = (s2, cmeta)"
  shows "(\<exists>st'. Load env tenv fs_manager st = Returns (OK, st')) \<longleftrightarrow>
           ok s1 \<and>
           Schema_Equals (tm_schema md) BuildTableSchema \<and>
           (IsDistributed (opts env) \<longrightarrow>
              ok s2 \<and>
              ok (VerifyConsensusState env (ToConsensusStatePB_COMMITTED cmeta)
                    COMMITTED_QUORUM) \<and>
              disk_addrs_convert env cmeta \<and>
              spec_addrs_from_disk env cmeta = spec_addrs_from_opts env) \<and>
           (\<exists>st'. SetupTablet env tenv md st = Returns (OK, st'))"
proof -
  let ?v = "Load_verify_consensus env fs_manager md"
  let ?pre = "ok s1 \<and> Schema_Equals (tm_schema md) BuildTableSchema \<and>
              (IsDistributed (opts env) \<longrightarrow> ok ?v)"
  note steps = Load_steps [OF md, of tenv st]
  show ?thesis
  proof (cases ?pre)
    case True
    then have "Load env tenv fs_manager st =
                 (case SetupTablet env tenv md st of
                    Returns (s, st') \<Rightarrow> Returns (s, st')
                  | Crashes \<Rightarrow> Crashes
                  | Blocks \<Rightarrow> Blocks)"
      using steps by auto
    then have "(\<exists>st'. Load env tenv fs_manager st = Returns (OK, st')) \<longleftrightarrow>
               (\<exists>st'. SetupTablet env tenv md st = Returns (OK, st'))"
      by (cases "SetupTablet env tenv md st") auto
    then show ?thesis
      using True Load_verify_consensus_ok_iff [OF cm] by blast
  next
    case False
    then have "\<exists>s. s \<noteq> OK \<and> Load env tenv fs_manager st = Returns (s, st)"
      using steps by (auto simp: ok_def)
    then have "\<not> (\<exists>st'. Load env tenv fs_manager st = Returns (OK, st'))"
      by auto
    moreover have "\<not> (ok s1 \<and>
           Schema_Equals (tm_schema md) BuildTableSchema \<and>
           (IsDistributed (opts env) \<longrightarrow>
              ok s2 \<and>
              ok (VerifyConsensusState env (ToConsensusStatePB_COMMITTED cmeta)
                    COMMITTED_QUORUM) \<and>
              disk_addrs_convert env cmeta \<and>
              spec_addrs_from_disk env cmeta = spec_addrs_from_opts env) \<and>
           (\<exists>st'. SetupTablet env tenv md st = Returns (OK, st')))"
      using False Load_verify_consensus_ok_iff [OF cm] by blast
    ultimately show ?thesis by blast
  qed
qed

text \<open>
  The theorem on the example cluster restarted with the addresses it was created with:
  every step succeeds and \<^verbatim>\<open>Load\<close> returns OK.
\<close>

theorem Load_OK_iff_witness:
  "Load (example_master_env three_masters) (example_tablet_env OK) example_fs
     (SysCatalogTable_new True)
   = Returns (OK,
       \<lparr>tablet_peer = Some [], apply_pool = True, schema = BuildTableSchema,
        key_schema = BuildTableSchema\<lparr>schema_cols := take 2 (schema_cols BuildTableSchema)\<rparr>,
        local_peer_pb =
          \<lparr>permanent_uuid = Some ''u2'', member_type = None,
           last_known_addr = Some \<lparr>pb_host = ''m2'', pb_port = 7051\<rparr>\<rparr>\<rparr>)"
  using Load_OK_iff
    [of "example_master_env three_masters" example_fs OK
        "\<lparr>tm_tablet_id = kSysCatalogTabletId, tm_schema = BuildTableSchema\<rparr>"
        OK example_cmeta "example_tablet_env OK" "SysCatalogTable_new True"]
  by (simp add: example_master_env_def example_tablet_env_def example_fs_def
      example_cmeta_def three_masters_def SysCatalogTable_new_def
      Load_def Let_def ok_def Schema_Equals_def SetupTablet_def InitLocalRaftPeerPB_def
      Load_verify_consensus_def ToConsensusStatePB_COMMITTED_def get_last_known_addr_def
      std_set_insert_def voter_def master_at_def RaftPeerPB_new_def BuildTableSchema_def
      string_of_nat_7051 example_ToString_def disk_addrs_convert_def
      spec_addrs_from_disk_def spec_addrs_from_opts_def)

text \<open>
  C2 as stated fails: on the same cluster, with the schema and the address sets equal, a
  failing bootstrap of the tablet makes \<^verbatim>\<open>Load\<close> return that failure.
\<close>

theorem Load_OK_setup_fails_counterexample:
  "Schema_Equals
     (tm_schema (snd (TabletMetadata_Load (example_master_env three_masters) example_fs
                        kSysCatalogTabletId)))
     BuildTableSchema \<and>
   IsDistributed (opts (example_master_env three_masters)) \<and>
   spec_addrs_from_disk (example_master_env three_masters) example_cmeta
     = spec_addrs_from_opts (example_master_env three_masters) \<and>
   Load (example_master_env three_masters)
     (example_tablet_env (NotOK kIOError ''log replay failed'')) example_fs
     (SysCatalogTable_new True)
   = Returns (NotOK kIOError ''log replay failed'',
       \<lparr>tablet_peer = Some [], apply_pool = True,
        schema = \<lparr>schema_cols = [], num_key_columns = 0\<rparr>,
        key_schema = \<lparr>schema_cols = [], num_key_columns = 0\<rparr>,
        local_peer_pb =
          \<lparr>permanent_uuid = Some ''u2'', member_type = None,
           last_known_addr = Some \<lparr>pb_host = ''m2'', pb_port = 7051\<rparr>\<rparr>\<rparr>)"
  by (simp add: example_master_env_def example_tablet_env_def example_fs_def
      example_cmeta_def three_masters_def SysCatalogTable_new_def
      Load_def Let_def ok_def Schema_Equals_def SetupTablet_def InitLocalRaftPeerPB_def
      Load_verify_consensus_def ToConsensusStatePB_COMMITTED_def get_last_known_addr_def
      std_set_insert_def voter_def master_at_def RaftPeerPB_new_def
      string_of_nat_7051 example_ToString_def
      spec_addrs_from_disk_def spec_addrs_from_opts_def)

text \<open>
  C3, as the code has it. In distributed mode, when \<^verbatim>\<open>Load\<close> has its two address sets (the tablet metadata
  loaded with the canonical schema, the consensus metadata loaded and verified, every
  persisted address converted) and they differ, it returns an invalid-argument status and
  leaves the object as it was; every address in the symmetric difference of the two sets
  occurs in the message.
\<close>

theorem Load_differing_peers:
  assumes dist: "IsDistributed (opts env)"
    and md: "TabletMetadata_Load env fs_manager kSysCatalogTabletId = (s1, md)"
    and s1: "ok s1"
    and eq: "Schema_Equals (tm_schema md) BuildTableSchema"
    and cm: "ConsensusMetadata_Load env fs_manager (tm_tablet_id md) (fs_uuid fs_manager)
               = (s2, cmeta)"
    and s2: "ok s2"
    and ver: "ok (VerifyConsensusState env (ToConsensusStatePB_COMMITTED cmeta)
                    COMMITTED_QUORUM)"
    and conv: "disk_addrs_convert env cmeta"
    and diff: "spec_addrs_from_disk env cmeta \<noteq> spec_addrs_from_opts env"
  shows "\<exists>msg. Load env tenv fs_manager st = Returns (NotOK kInvalidArgument msg, st) \<and>
           (\<forall>a \<in> (spec_addrs_from_opts env - spec_addrs_from_disk env cmeta) \<union>
                  (spec_addrs_from_disk env cmeta - spec_addrs_from_opts env).
              sublist a msg)"
proof -
  obtain symm_diff where
    sd: "set symm_diff =
             (spec_addrs_from_opts env - spec_addrs_from_disk env cmeta) \<union>
             (spec_addrs_from_disk env cmeta - spec_addrs_from_opts env)"
    and res: "Load_verify_consensus env fs_manager md =
             (if symm_diff \<noteq> []
              then NotOK kInvalidArgument
                     (''on-disk and provided master lists are different: '' @
                      JoinStrings symm_diff '' '')
              else OK)"
    using Load_verify_consensus_compare [OF cm s2 ver conv] by blast
  let ?msg = "''on-disk and provided master lists are different: '' @
              JoinStrings symm_diff '' ''"
  have "set symm_diff \<noteq> {}"
    unfolding sd using diff by blast
  then have ne: "symm_diff \<noteq> []" by auto
  then have v: "Load_verify_consensus env fs_manager md = NotOK kInvalidArgument ?msg"
    using res by simp
  have ret: "Load env tenv fs_manager st = Returns (NotOK kInvalidArgument ?msg, st)"
    using Load_steps [OF md, of tenv st] s1 eq dist v by (simp add: ok_def)
  have "sublist a ?msg" if mem: "a \<in> set symm_diff" for a
  proof -
    obtain ps ss where "JoinStrings symm_diff '' '' = ps @ a @ ss"
      using JoinStrings_sublist [OF mem, of "'' ''"] unfolding sublist_def by blast
    then have "?msg = (''on-disk and provided master lists are different: '' @ ps) @ a @ ss"
      by simp
    then show ?thesis
      unfolding sublist_def by blast
  qed
  with ret sd show ?thesis by blast
qed

text \<open>
  The theorem on the example cluster restarted with m3 replaced by m4: the message names
  both.
\<close>

theorem Load_differing_peers_witness:
  "Load (example_master_env replaced_masters) (example_tablet_env OK) example_fs
     (SysCatalogTable_new True)
   = Returns
       (NotOK kInvalidArgument
          ''on-disk and provided master lists are different: m3:7051 m4:7051'',
        SysCatalogTable_new True)"
  using Load_differing_peers
    [of "example_master_env replaced_masters" example_fs OK
        "\<lparr>tm_tablet_id = kSysCatalogTabletId, tm_schema = BuildTableSchema\<rparr>"
        OK example_cmeta "example_tablet_env OK" "SysCatalogTable_new True"]
  by (simp add: example_master_env_def example_fs_def
      example_cmeta_def three_masters_def replaced_masters_def
      Load_def Let_def ok_def Schema_Equals_def
      Load_verify_consensus_def ToConsensusStatePB_COMMITTED_def get_last_known_addr_def
      std_set_insert_def voter_def master_at_def Status_InvalidArgument_def Status2_def
      string_of_nat_7051 example_ToString_def disk_addrs_convert_def
      spec_addrs_from_disk_def spec_addrs_from_opts_def)

text \<open>
  C3 as stated fails: in distributed mode, with m3 on disk and m4 in the options, a
  committed consensus state that does not pass verification makes \<^verbatim>\<open>Load\<close> return the
  status of the verification, and a drifted schema makes it return a corruption status;
  neither is an invalid-argument status and neither message names an address.
\<close>

theorem Load_differing_peers_earlier_failure_counterexample:
  "IsDistributed (opts unverified_master_env) \<and>
   ''m3:7051'' \<in> spec_addrs_from_disk unverified_master_env example_cmeta
                    - spec_addrs_from_opts unverified_master_env \<and>
   ''m4:7051'' \<in> spec_addrs_from_opts unverified_master_env
                    - spec_addrs_from_disk unverified_master_env example_cmeta \<and>
   snd (ConsensusMetadata_Load unverified_master_env example_fs kSysCatalogTabletId ''u2'')
     = example_cmeta \<and>
   Load unverified_master_env (example_tablet_env OK) example_fs (SysCatalogTable_new True)
     = Returns (NotOK kIllegalState ''leader is not a voter'', SysCatalogTable_new True) \<and>
   IsDistributed (opts drifted_master_env) \<and>
   ''m3:7051'' \<in> spec_addrs_from_disk drifted_master_env example_cmeta
                    - spec_addrs_from_opts drifted_master_env \<and>
   ''m4:7051'' \<in> spec_addrs_from_opts drifted_master_env
                    - spec_addrs_from_disk drifted_master_env example_cmeta \<and>
   Load drifted_master_env (example_tablet_env OK) example_fs (SysCatalogTable_new True)
     = Returns (NotOK kCorruption ''Unexpected schema: Schema'', SysCatalogTable_new True)"
  by (simp add: unverified_master_env_def drifted_master_env_def example_master_env_def
      example_fs_def example_cmeta_def three_masters_def replaced_masters_def
      Load_def Let_def ok_def Schema_Equals_def BuildTableSchema_def
      Load_verify_consensus_def ToConsensusStatePB_COMMITTED_def get_last_known_addr_def
      voter_def master_at_def Status2_def
      string_of_nat_7051 example_ToString_def
      spec_addrs_from_disk_def spec_addrs_from_opts_def)

subsection \<open>Shutdown\<close>

text \<open>
  A \<^verbatim>\<open>Load\<close> that fails before \<^verbatim>\<open>SetupTablet\<close> leaves the object as it was, the
  tablet peer handle included.
\<close>

lemma Load_failure_before_SetupTablet:
  assumes "TabletMetadata_Load env fs_manager kSysCatalogTabletId = (s1, md)"
    and "\<not> (ok s1 \<and> Schema_Equals (tm_schema md) BuildTableSchema \<and>
            (IsDistributed (opts env) \<longrightarrow> ok (Load_verify_consensus env fs_manager md)))"
  shows "\<exists>s. \<not> ok s \<and> Load env tenv fs_manager st = Returns (s, st)"
  using assms(2) Load_steps [OF assms(1), of tenv st]
  by (auto simp: ok_def)

text \<open>
  C9. \<^verbatim>\<open>Shutdown\<close> never aborts: it returns in every state, with the apply pool shut
  down. With a null tablet peer handle it does nothing else: the handle stays null and the
  tablet peer's shutdown is not called. A freshly constructed object is such a state.
\<close>

theorem Shutdown_without_tablet_peer:
  "(\<exists>st'. Shutdown tenv st = Returns st' \<and>
          apply_pool st' = ThreadPool_Shutdown tenv (apply_pool st)) \<and>
   (tablet_peer st = None \<longrightarrow>
      Shutdown tenv st = Returns (st\<lparr>apply_pool := ThreadPool_Shutdown tenv (apply_pool st)\<rparr>)) \<and>
   Shutdown tenv (SysCatalogTable_new pool) =
     Returns (SysCatalogTable_new (ThreadPool_Shutdown tenv pool))"
  by (cases "tablet_peer st") (simp_all add: Shutdown_def deref_def SysCatalogTable_new_def)

theorem Shutdown_without_tablet_peer_witness:
  "Shutdown (example_tablet_env OK) (SysCatalogTable_new True) =
     Returns (SysCatalogTable_new False) \<and>
   tablet_peer (SysCatalogTable_new True :: (WriteRequestPB list, bool) SysCatalogTable) = None"
  using Shutdown_without_tablet_peer
    [of "example_tablet_env OK" "SysCatalogTable_new True" True]
  by (simp add: example_tablet_env_def SysCatalogTable_new_def)

subsection \<open>CreateDistributedConfig\<close>

lemma CreateDistributedConfig_peers_loop_ok:
  "\<forall>hp\<in>set hps. ok (fst (HostPortToPB env hp)) \<Longrightarrow>
   CreateDistributedConfig_peers_loop env hps cfg =
     (OK, cfg\<lparr>peers := peers cfg @ map (spec_config_peer env) hps\<rparr>)"
proof (induction hps arbitrary: cfg)
  case Nil
  then show ?case by simp
next
  case (Cons hp hps)
  obtain s pb where conv: "HostPortToPB env hp = (s, pb)"
    by (cases "HostPortToPB env hp")
  with Cons.prems have "ok s" by simp
  moreover have "CreateDistributedConfig_peers_loop env hps
                   (cfg\<lparr>peers := peers cfg @ [spec_config_peer env hp]\<rparr>) =
                 (OK, cfg\<lparr>peers := (peers cfg @ [spec_config_peer env hp]) @
                                     map (spec_config_peer env) hps\<rparr>)"
    using Cons.IH [of "cfg\<lparr>peers := peers cfg @ [spec_config_peer env hp]\<rparr>"] Cons.prems
    by simp
  ultimately show ?case
    using conv by (simp add: Let_def RaftPeerPB_new_def spec_config_peer_def)
qed

lemma CreateDistributedConfig_peers_loop_fails:
  "\<not> (\<forall>hp\<in>set hps. ok (fst (HostPortToPB env hp))) \<Longrightarrow>
   \<not> ok (fst (CreateDistributedConfig_peers_loop env hps cfg))"
  by (induction hps arbitrary: cfg) (auto simp: Let_def split: prod.splits)

lemma CreateDistributedConfig_resolve_loop_ok:
  "\<forall>p\<in>set ps. permanent_uuid p = None \<and> ok (fst (SetPermanentUuidForRemotePeer env p)) \<Longrightarrow>
   CreateDistributedConfig_resolve_loop env ps cfg =
     (OK, cfg\<lparr>peers := peers cfg @ map (\<lambda>p. snd (SetPermanentUuidForRemotePeer env p)) ps\<rparr>)"
proof (induction ps arbitrary: cfg)
  case Nil
  then show ?case by simp
next
  case (Cons p ps)
  obtain s q where res: "SetPermanentUuidForRemotePeer env p = (s, q)"
    by (cases "SetPermanentUuidForRemotePeer env p")
  with Cons.prems have "ok s" "permanent_uuid p = None" by simp_all
  moreover have "CreateDistributedConfig_resolve_loop env ps (cfg\<lparr>peers := peers cfg @ [q]\<rparr>) =
                 (OK, cfg\<lparr>peers := (peers cfg @ [q]) @
                                     map (\<lambda>p. snd (SetPermanentUuidForRemotePeer env p)) ps\<rparr>)"
    using Cons.IH [of "cfg\<lparr>peers := peers cfg @ [q]\<rparr>"] Cons.prems by simp
  ultimately show ?case
    using res by (simp add: Let_def)
qed

lemma CreateDistributedConfig_resolve_loop_fails:
  "\<forall>p\<in>set ps. permanent_uuid p = None \<Longrightarrow>
   \<not> (\<forall>p\<in>set ps. ok (fst (SetPermanentUuidForRemotePeer env p))) \<Longrightarrow>
   \<not> ok (fst (CreateDistributedConfig_resolve_loop env ps cfg))"
  by (induction ps arbitrary: cfg)
     (auto simp: Let_def CloneAndPrepend_not_ok split: prod.splits)

lemma CreateDistributedConfig_cases:
  "CreateDistributedConfig env options committed_config =
     (if spec_config_steps_succeed env options
      then (OK, spec_resolved_config env options)
      else (fst (CreateDistributedConfig env options committed_config), committed_config)) \<and>
   (\<not> spec_config_steps_succeed env options \<longrightarrow>
      \<not> ok (fst (CreateDistributedConfig env options committed_config)))"
proof -
  let ?addrs = "master_addresses options"
  let ?new = "RaftConfigPB_new\<lparr>obsolete_local := Some False,
                opid_index := Some (kInvalidOpIdIndex env)\<rparr>"
  show ?thesis
  proof (cases "\<forall>hp\<in>set ?addrs. ok (fst (HostPortToPB env hp))")
    case False
    then have "\<not> ok (fst (CreateDistributedConfig_peers_loop env ?addrs ?new))"
      by (rule CreateDistributedConfig_peers_loop_fails)
    moreover obtain s c where "CreateDistributedConfig_peers_loop env ?addrs ?new = (s, c)"
      by (cases "CreateDistributedConfig_peers_loop env ?addrs ?new")
    ultimately have "CreateDistributedConfig env options committed_config = (s, committed_config)"
      and "\<not> ok s"
      by (simp_all add: CreateDistributedConfig_def Let_def)
    moreover have "\<not> spec_config_steps_succeed env options"
      using False by (simp add: spec_config_steps_succeed_def)
    ultimately show ?thesis by simp
  next
    case conv: True
    then have built: "CreateDistributedConfig_peers_loop env ?addrs ?new =
                 (OK, ?new\<lparr>peers := map (spec_config_peer env) ?addrs\<rparr>)"
      using CreateDistributedConfig_peers_loop_ok [of ?addrs env ?new]
      by (simp add: RaftConfigPB_new_def)
    let ?ps = "map (spec_config_peer env) ?addrs"
    have nouuid: "\<forall>p\<in>set ?ps. permanent_uuid p = None"
      by (simp add: spec_config_peer_def)
    show ?thesis
    proof (cases "\<forall>hp\<in>set ?addrs.
                    ok (fst (SetPermanentUuidForRemotePeer env (spec_config_peer env hp)))")
      case False
      then have "\<not> (\<forall>p\<in>set ?ps. ok (fst (SetPermanentUuidForRemotePeer env p)))"
        by simp
      then have "\<not> ok (fst (CreateDistributedConfig_resolve_loop env ?ps
                              (?new\<lparr>peers := []\<rparr>)))"
        using CreateDistributedConfig_resolve_loop_fails [OF nouuid] by blast
      moreover obtain s c where
        "CreateDistributedConfig_resolve_loop env ?ps (?new\<lparr>peers := []\<rparr>) = (s, c)"
        by (cases "CreateDistributedConfig_resolve_loop env ?ps (?new\<lparr>peers := []\<rparr>)")
      ultimately have "CreateDistributedConfig env options committed_config
                         = (s, committed_config)" and "\<not> ok s"
        using built by (simp_all add: CreateDistributedConfig_def Let_def ok_def)
      moreover have "\<not> spec_config_steps_succeed env options"
        using False by (simp add: spec_config_steps_succeed_def)
      ultimately show ?thesis by simp
    next
      case res: True
      then have "\<forall>p\<in>set ?ps. permanent_uuid p = None \<and>
                   ok (fst (SetPermanentUuidForRemotePeer env p))"
        using nouuid by simp
      then have resolved: "CreateDistributedConfig_resolve_loop env ?ps (?new\<lparr>peers := []\<rparr>) =
                   (OK, spec_resolved_config env options)"
        using CreateDistributedConfig_resolve_loop_ok [of ?ps env "?new\<lparr>peers := []\<rparr>"]
        by (simp add: spec_resolved_config_def RaftConfigPB_new_def comp_def)
      show ?thesis
        using conv res built resolved
        by (simp add: CreateDistributedConfig_def Let_def ok_def spec_config_steps_succeed_def)
    qed
  qed
qed

text \<open>
  C10. When every address converts, every peer's UUID resolves and the resolved
  configuration passes verification, the function returns OK and the output parameter
  holds the resolved configuration. When any of these steps fails, the status is not OK
  and the output parameter holds what it held at the call.
\<close>

theorem CreateDistributedConfig_writes_output_on_success_only:
  "(spec_config_steps_succeed env options \<longrightarrow>
      CreateDistributedConfig env options committed_config =
        (OK, spec_resolved_config env options)) \<and>
   (\<not> spec_config_steps_succeed env options \<longrightarrow>
      \<not> ok (fst (CreateDistributedConfig env options committed_config)) \<and>
      snd (CreateDistributedConfig env options committed_config) = committed_config)"
  using CreateDistributedConfig_cases [of env options committed_config]
  by (cases "spec_config_steps_succeed env options") (simp_all, metis snd_conv)

text \<open>
  The theorem on the example cluster: with all three masters up the output is the resolved
  configuration; with one master down the status carries the peer and the cause, and the
  output is untouched.
\<close>

theorem CreateDistributedConfig_writes_output_on_success_only_witness:
  "CreateDistributedConfig (example_master_env three_masters)
     (opts (example_master_env three_masters)) RaftConfigPB_new
   = (OK, \<lparr>obsolete_local = Some False, opid_index = Some (- 1),
           peers = [voter ''u-m1'' ''m1'', voter ''u-m2'' ''m2'', voter ''u-m3'' ''m3'']\<rparr>) \<and>
   CreateDistributedConfig (example_master_env one_master_down)
     (opts (example_master_env one_master_down)) RaftConfigPB_new
   = (NotOK kNetworkError ''Unable to resolve UUID for peer down: connection refused'',
      RaftConfigPB_new)"
  using
    CreateDistributedConfig_writes_output_on_success_only
      [of "example_master_env three_masters" "opts (example_master_env three_masters)"
          RaftConfigPB_new]
    CreateDistributedConfig_writes_output_on_success_only
      [of "example_master_env one_master_down" "opts (example_master_env one_master_down)"
          RaftConfigPB_new]
  by (simp add: example_master_env_def three_masters_def one_master_down_def master_at_def
      voter_def CreateDistributedConfig_def Let_def ok_def RaftConfigPB_new_def
      RaftPeerPB_new_def get_last_known_addr_def spec_config_steps_succeed_def
      spec_resolved_config_def spec_config_peer_def Status2_def)

end
